theory Spec2Isabelle
  imports Main "HOL-Library.Sublist"
begin

section \<open>Python values used by the program\<close>

text \<open>
  Exceptions are values. \<open>ValueError\<close> is what \<open>datetime.strptime\<close> raises on a string
  that does not match the format, \<open>OverflowError\<close> is what \<open>datetime - timedelta\<close> raises
  when the result is before \<open>datetime.min\<close>, \<open>ProbeExited rc\<close> is the
  \<open>Exception\<close> of \<open>PROBE._run\<close> (exit code \<open>rc\<close>), \<open>DurationUnparseable\<close> stands
  for whatever \<open>int(round(float(...), 0))\<close> raises on the probe's output,
  \<open>OutputNotAdded\<close> is the \<open>Exception\<close> of \<open>FFMPEG.run\<close> without an output and
  \<open>RuntimeError rc\<close> the one it raises on exit code \<open>rc\<close>.
\<close>

datatype error =
    ValueError
  | OverflowError
  | ProbeExited int
  | DurationUnparseable
  | OutputNotAdded
  | RuntimeError int

text \<open>\<open>str\<close> of a Python \<open>int\<close>: decimal digits, a minus sign for negatives.\<close>

definition digit_char :: "nat \<Rightarrow> char" where
  "digit_char d = ''0123456789'' ! (d mod 10)"

fun str_nat :: "nat \<Rightarrow> string" where
  "str_nat n = (if n < 10 then [digit_char n] else str_nat (n div 10) @ [digit_char (n mod 10)])"

declare str_nat.simps [simp del]

definition str_int :: "int \<Rightarrow> string" where
  "str_int i = (if i < 0 then CHR ''-'' # str_nat (nat (- i)) else str_nat (nat i))"

text \<open>
  \<open>types.Input\<close> is \<open>Union[str, int]\<close>; an f-string formats a \<open>str\<close> as itself and an
  \<open>int\<close> in decimal.
\<close>

datatype Input = IStr string | IInt int

fun format_Input :: "Input \<Rightarrow> string" where
  "format_Input (IStr s) = s"
| "format_Input (IInt i) = str_int i"

text \<open>
  An optional string argument (\<open>str = None\<close>): its truth value is False for \<open>None\<close> and
  for the empty string, and an f-string prints \<open>None\<close> as the four letters.
\<close>

fun truthy :: "string option \<Rightarrow> bool" where
  "truthy None = False"
| "truthy (Some s) = (s \<noteq> [])"

fun format_opt :: "string option \<Rightarrow> string" where
  "format_opt None = ''None''"
| "format_opt (Some s) = s"

text \<open>
  \<open>range(start, stop, step)\<close> for a positive step (the program only uses step 4; Python
  refuses step 0 with a ValueError, here the list is empty) and the slice \<open>xs[i:j]\<close> for
  indices \<open>0 \<le> i \<le> j\<close>.
\<close>

function py_range :: "nat \<Rightarrow> nat \<Rightarrow> nat \<Rightarrow> nat list" where
  "py_range start stop step =
     (if step = 0 \<or> stop \<le> start then [] else start # py_range (start + step) stop step)"
  by pat_completeness auto
termination
  by (relation "measure (\<lambda>(start, stop, step). stop - start)") auto

declare py_range.simps [simp del]

definition slice :: "'a list \<Rightarrow> nat \<Rightarrow> nat \<Rightarrow> 'a list" where
  "slice xs i j = take (j - i) (drop i xs)"

section \<open>ffmpeg/ffmpeg.py: the command builder\<close>

record FFMPEG =
  ffmpeg_path :: string
  cmd :: "string list"
  filter_complex :: "string list"
  maps :: "string list"
  quality :: string
  preset :: string
  pix_format :: "string option"
  video_encoder :: string
  audio_encoder :: string
  bitrate :: string
  output_added :: bool
  overwrite_output :: bool
  input_count :: int
  extra_input_options :: "string list"
  debug :: bool

text \<open>\<open>FFMPEG._set_defaults\<close>, \<open>FFMPEG.__init__\<close> and \<open>FFMPEG.reset\<close>.\<close>

definition set_defaults :: "FFMPEG \<Rightarrow> FFMPEG" where
  "set_defaults ff =
     ff\<lparr>cmd := [ffmpeg_path ff], filter_complex := [], maps := [],
        quality := ''20'', preset := ''slow'', pix_format := None,
        video_encoder := ''h264_nvenc'', audio_encoder := ''aac'', bitrate := ''44100'',
        output_added := False, overwrite_output := True, input_count := 0\<rparr>"

definition FFMPEG_init :: "string \<Rightarrow> bool \<Rightarrow> FFMPEG" where
  "FFMPEG_init path use_gpu =
     set_defaults
       \<lparr>ffmpeg_path = path, cmd = [], filter_complex = [], maps = [], quality = [],
        preset = [], pix_format = None, video_encoder = [], audio_encoder = [],
        bitrate = [], output_added = False, overwrite_output = False, input_count = 0,
        extra_input_options =
          (if use_gpu then [''-hwaccel'', ''cuda'', ''-hwaccel_output_format'', ''cuda'']
           else []),
        debug = True\<rparr>"

definition reset :: "FFMPEG \<Rightarrow> FFMPEG" where
  "reset ff = set_defaults ff"

text \<open>\<open>FFMPEG._compile_settings\<close>: each setting is added when its value is truthy.\<close>

definition compile_settings :: "FFMPEG \<Rightarrow> string list" where
  "compile_settings ff =
     (if video_encoder ff \<noteq> [] then [''-c:v'', video_encoder ff] else [])
   @ (if audio_encoder ff \<noteq> [] then [''-c:a'', audio_encoder ff] else [])
   @ (if bitrate ff \<noteq> [] then [''-b:a'', bitrate ff] else [])
   @ (if quality ff \<noteq> [] then [''-qp'', quality ff] else [])
   @ (if preset ff \<noteq> [] then [''-preset'', preset ff] else [])
   @ (if truthy (pix_format ff) then [''-pix_fmt'', format_opt (pix_format ff)] else [])
   @ (if overwrite_output ff then [''-y''] else [])"

definition add_settings :: "FFMPEG \<Rightarrow> FFMPEG" where
  "add_settings ff = ff\<lparr>cmd := cmd ff @ compile_settings ff\<rparr>"

text \<open>\<open>FFMPEG._compile_filter_complex\<close>: the fragments joined, one final \<open>;\<close> removed.\<close>

definition compile_filter_complex :: "FFMPEG \<Rightarrow> string" where
  "compile_filter_complex ff =
     (let commands = concat (filter_complex ff)
      in if commands \<noteq> [] \<and> last commands = CHR '';'' then butlast commands else commands)"

definition add_filter_complex :: "FFMPEG \<Rightarrow> FFMPEG" where
  "add_filter_complex ff =
     (if filter_complex ff \<noteq> []
      then ff\<lparr>cmd := cmd ff @ [''-filter_complex'', compile_filter_complex ff] @ maps ff\<rparr>
      else ff)"

definition current_input_index :: "FFMPEG \<Rightarrow> int" where
  "current_input_index ff = input_count ff - 1"

text \<open>\<open>FFMPEG.add_input\<close> as the program calls it, without \<open>start_from\<close>.\<close>

definition add_input :: "FFMPEG \<Rightarrow> string \<Rightarrow> FFMPEG" where
  "add_input ff input_file =
     ff\<lparr>cmd := cmd ff @ (extra_input_options ff @ [''-i'', input_file]),
        input_count := input_count ff + 1\<rparr>"

definition add_output :: "FFMPEG \<Rightarrow> string \<Rightarrow> FFMPEG" where
  "add_output ff output_file =
     (let ff1 = add_filter_complex (add_settings ff)
      in ff1\<lparr>cmd := cmd ff1 @ [output_file], output_added := True\<rparr>)"

text \<open>
  \<open>FFMPEG.concat\<close>. \<open>concat_filter\<close> is the value of the local variable \<open>filter\<close> when
  it is appended: a label per input and requested stream, \<open>concat=n=<len(input)>:\<close>, and
  the tail chosen by the \<open>if/elif/elif\<close>, whose first condition is
  \<open>output_audio and output_audio\<close>.
\<close>

fun concat_labels :: "(Input \<times> Input) list \<Rightarrow> string option \<Rightarrow> string option \<Rightarrow> string" where
  "concat_labels [] output_video output_audio = []"
| "concat_labels (i # input) output_video output_audio =
     (if truthy output_video then ''['' @ format_Input (fst i) @ '']'' else [])
   @ (if truthy output_audio then ''['' @ format_Input (snd i) @ '']'' else [])
   @ concat_labels input output_video output_audio"

definition concat_tail :: "string option \<Rightarrow> string option \<Rightarrow> string" where
  "concat_tail output_video output_audio =
     (if truthy output_audio \<and> truthy output_audio
      then ''v=1:a=1['' @ format_opt output_video @ '']['' @ format_opt output_audio @ ''];''
      else if truthy output_video then ''v=1['' @ format_opt output_video @ ''];''
      else if truthy output_audio then ''a=1['' @ format_opt output_audio @ ''];''
      else [])"

definition concat_filter :: "(Input \<times> Input) list \<Rightarrow> string option \<Rightarrow> string option \<Rightarrow> string" where
  "concat_filter input output_video output_audio =
     concat_labels input output_video output_audio
   @ ''concat=n='' @ str_nat (length input) @ '':''
   @ concat_tail output_video output_audio"

definition FFMPEG_concat ::
  "FFMPEG \<Rightarrow> (Input \<times> Input) list \<Rightarrow> string option \<Rightarrow> string option \<Rightarrow> FFMPEG" where
  "FFMPEG_concat ff input output_video output_audio =
     ff\<lparr>filter_complex := filter_complex ff @ [concat_filter input output_video output_audio]\<rparr>"

text \<open>
  The other builder methods the program calls. \<open>Dimension\<close> and \<open>Position\<close> arguments are
  given as the text the f-string prints for them (the program passes \<open>1920 / 1.5\<close> and
  \<open>1080 / 1.5\<close>, printed \<open>1280.0\<close> and \<open>720.0\<close>, and the integers \<open>0\<close>).
\<close>

definition FFMPEG_scale :: "FFMPEG \<Rightarrow> Input \<Rightarrow> string \<Rightarrow> string \<Rightarrow> string \<Rightarrow> FFMPEG" where
  "FFMPEG_scale ff input width height output =
     ff\<lparr>filter_complex := filter_complex ff @
        [''['' @ format_Input input @ '']scale_cuda='' @ [CHR 0x27] @ width @ [CHR 0x27]
         @ '':'' @ [CHR 0x27] @ height @ [CHR 0x27] @ ''['' @ output @ ''];'']\<rparr>"

definition FFMPEG_overlay ::
  "FFMPEG \<Rightarrow> Input \<Rightarrow> Input \<Rightarrow> string \<Rightarrow> string \<Rightarrow> string \<Rightarrow> FFMPEG" where
  "FFMPEG_overlay ff background overlay x y output =
     ff\<lparr>filter_complex := filter_complex ff @
        [''['' @ format_Input background @ '']['' @ format_Input overlay @ '']overlay_cuda=''
         @ [CHR 0x27] @ x @ [CHR 0x27] @ '':'' @ [CHR 0x27] @ y @ [CHR 0x27]
         @ ''['' @ output @ ''];'']\<rparr>"

definition FFMPEG_map :: "FFMPEG \<Rightarrow> Input \<Rightarrow> FFMPEG" where
  "FFMPEG_map ff input = ff\<lparr>maps := maps ff @ [''-map'', ''['' @ format_Input input @ '']'']\<rparr>"

fun format_int_opt :: "int option \<Rightarrow> string" where
  "format_int_opt None = ''None''"
| "format_int_opt (Some i) = str_int i"

definition create_silent_audio_stream :: "FFMPEG \<Rightarrow> string \<Rightarrow> int option \<Rightarrow> FFMPEG" where
  "create_silent_audio_stream ff output duration =
     ff\<lparr>filter_complex := filter_complex ff @
        [''anullsrc=channel_layout=stereo:sample_rate='' @ bitrate ff @ '':d=''
         @ format_int_opt duration @ ''['' @ output @ ''];'']\<rparr>"

section \<open>The environment: library calls and child processes\<close>

text \<open>
  A \<open>datetime\<close> parsed with the format \<open>%Y%m%d_%H%M%S\<close> is a whole number of seconds; it
  is modelled as the number of seconds since \<open>datetime.min\<close> (0001-01-01 00:00:00), a
  \<open>nat\<close>. Subtracting a \<open>timedelta\<close> raises OverflowError when the result would be
  before \<open>datetime.min\<close>.

  The filesystem and the child processes are a \<open>world\<close>: the paths that exist and the
  argument vectors of the encoder processes run so far, oldest first.
\<close>

record world =
  on_disk :: "string list"
  runs :: "string list list"

text \<open>
  What the program does not define is a parameter:
  \<^item> \<open>strptime s\<close> is \<open>datetime.strptime(s, "%Y%m%d_%H%M%S")\<close>, \<open>None\<close> when it raises
    ValueError;
  \<^item> \<open>strftime t\<close> is \<open>t.strftime("%d %b %Y %H-%M-%S")\<close>;
  \<^item> \<open>ffprobe argv\<close> is the exit code and the standard output of the probing process
    run with \<open>argv\<close>;
  \<^item> \<open>to_seconds out\<close> is \<open>int(round(float(out.strip()), 0))\<close> of the output, \<open>None\<close>
    when decoding it or one of these calls raises;
  \<^item> \<open>encoder argv w\<close> is the exit code of the encoder process run with \<open>argv\<close> in the
    world \<open>w\<close>, and the paths that exist when it has exited.
  Every process is assumed to start and to exit.
\<close>

record env =
  strptime :: "string \<Rightarrow> nat option"
  strftime :: "nat \<Rightarrow> string"
  ffprobe :: "string list \<Rightarrow> int \<times> string"
  to_seconds :: "string \<Rightarrow> int option"
  encoder :: "string list \<Rightarrow> world \<Rightarrow> int \<times> string list"

definition timedelta_hours :: "nat \<Rightarrow> nat" where
  "timedelta_hours h = h * 3600"

definition datetime_sub :: "nat \<Rightarrow> nat \<Rightarrow> error + nat" where
  "datetime_sub t delta = (if t < delta then Inl OverflowError else Inr (t - delta))"

text \<open>
  \<open>subprocess.Popen(argv, ...)\<close> followed by \<open>process.wait()\<close>: the process runs, the
  world records it, the exit code is returned.
\<close>

definition popen_wait :: "env \<Rightarrow> string list \<Rightarrow> world \<Rightarrow> int \<times> world" where
  "popen_wait e argv w =
     (case encoder e argv w of
        (returncode, fs) \<Rightarrow> (returncode, w\<lparr>on_disk := fs, runs := runs w @ [argv]\<rparr>))"

definition path_exists :: "world \<Rightarrow> string \<Rightarrow> bool" where
  "path_exists w p = (p \<in> set (on_disk w))"

text \<open>\<open>FFMPEG.run\<close>: the result is the exception raised, if any, and the world after.\<close>

definition FFMPEG_run :: "env \<Rightarrow> FFMPEG \<Rightarrow> world \<Rightarrow> error option \<times> world" where
  "FFMPEG_run e ff w =
     (if \<not> output_added ff then (Some OutputNotAdded, w)
      else case popen_wait e (cmd ff) w of
        (returncode, w') \<Rightarrow>
          if returncode \<noteq> 0 then (Some (RuntimeError returncode), w') else (None, w'))"

section \<open>ffmpeg/probe.py\<close>

text \<open>
  The state of the \<open>PROBE\<close> object is its \<open>cmd\<close> list. \<open>get_media_duration\<close> extends it,
  runs it, and resets it only on the path that returns: after an exception the extended
  list stays. The result is the exception or the duration, and the new \<open>cmd\<close>.
\<close>

definition PROBE_defaults :: "string list" where
  "PROBE_defaults = [''ffprobe'']"

definition PROBE_run :: "env \<Rightarrow> string list \<Rightarrow> error + string" where
  "PROBE_run e c =
     (case ffprobe e c of
        (returncode, output) \<Rightarrow> if returncode \<noteq> 0 then Inl (ProbeExited returncode) else Inr output)"

definition probe_cmd :: "string list \<Rightarrow> string \<Rightarrow> string list" where
  "probe_cmd c input_file =
     c @ [''-v'', ''error'', ''-show_entries'', ''format=duration'', ''-of'',
          ''default=noprint_wrappers=1:nokey=1'', input_file]"

definition get_media_duration :: "env \<Rightarrow> string list \<Rightarrow> string \<Rightarrow> (error + int) \<times> string list" where
  "get_media_duration e c input_file =
     (let c1 = probe_cmd c input_file
      in case PROBE_run e c1 of
           Inl err \<Rightarrow> (Inl err, c1)
         | Inr process \<Rightarrow>
             (case to_seconds e process of
                None \<Rightarrow> (Inl DurationUnparseable, c1)
              | Some seconds \<Rightarrow> (Inr seconds, PROBE_defaults)))"

text \<open>
  The probe of a file fails, with the \<open>cmd\<close> of the \<open>PROBE\<close> being \<open>c\<close>, when the process
  exits with a non-zero code or prints what is no duration.
\<close>

definition probe_fails :: "env \<Rightarrow> string list \<Rightarrow> string \<Rightarrow> bool" where
  "probe_fails e c input_file =
     (fst (ffprobe e (probe_cmd c input_file)) \<noteq> 0
      \<or> to_seconds e (snd (ffprobe e (probe_cmd c input_file))) = None)"

section \<open>main.py: clips and groups\<close>

definition DEBUG :: bool where
  "DEBUG = False"

text \<open>
  A \<open>pathlib.Path\<close> is its POSIX text: \<open>as_posix\<close> is the text itself and \<open>name\<close> is the
  last component. \<open>before_first_dot s\<close> is \<open>s.split(".")[0]\<close>.
\<close>

definition path_name :: "string \<Rightarrow> string" where
  "path_name p = rev (takeWhile (\<lambda>c. c \<noteq> CHR ''/'') (rev p))"

definition before_first_dot :: "string \<Rightarrow> string" where
  "before_first_dot s = takeWhile (\<lambda>c. c \<noteq> CHR ''.'') s"

definition datetime_from_file_name :: "env \<Rightarrow> string \<Rightarrow> error + nat" where
  "datetime_from_file_name e file =
     (let file_name_datetime_section = take 15 (before_first_dot (path_name file))
      in case strptime e file_name_datetime_section of
           None \<Rightarrow> Inl ValueError
         | Some datetime \<Rightarrow> Inr datetime)"

datatype VideoTypes = Parked | Moving

datatype VideoViewPointType = Front | Back

text \<open>
  \<open>Video\<close>. Its field \<open>type_\<close> is \<open>video_type\<close> here. Its field \<open>ffmpeg\<close> is a reference
  to the builder of the group that owns it: the model passes that builder to the methods
  that use it and gets it back updated.
\<close>

record Video =
  path :: string
  view_point :: VideoViewPointType
  video_type :: VideoTypes
  duration_seconds :: "int option"
  ffmpeg_input_number :: int
  ffmpeg_video_stream :: string
  ffmpeg_audio_stream :: string

text \<open>
  \<open>Video.__init__\<close>: any exception of the probe is caught and the duration is \<open>None\<close>.
  The second component is the \<open>cmd\<close> of the global \<open>PROBE\<close> afterwards.
\<close>

definition Video_init :: "env \<Rightarrow> string list \<Rightarrow> string \<Rightarrow> Video \<times> string list" where
  "Video_init e c p =
     (let file_name = before_first_dot (path_name p)
      in case get_media_duration e c p of
           (r, c') \<Rightarrow>
             (\<lparr>path = p,
               view_point = (if CHR ''A'' \<in> set file_name then Front else Back),
               video_type = (if CHR ''P'' \<in> set file_name then Parked else Moving),
               duration_seconds = (case r of Inl err \<Rightarrow> None | Inr d \<Rightarrow> Some d),
               ffmpeg_input_number = 0,
               ffmpeg_video_stream = ''0:v'',
               ffmpeg_audio_stream = ''0:a''\<rparr>, c'))"

definition add_audio_stream :: "FFMPEG \<Rightarrow> Video \<Rightarrow> FFMPEG \<times> Video" where
  "add_audio_stream ff v =
     (let v1 = v\<lparr>ffmpeg_audio_stream := ''a_'' @ str_int (ffmpeg_input_number v)\<rparr>
      in (create_silent_audio_stream ff (ffmpeg_audio_stream v1) (duration_seconds v1), v1))"

definition add_as_ffmpeg_input :: "FFMPEG \<Rightarrow> Video \<Rightarrow> FFMPEG \<times> Video" where
  "add_as_ffmpeg_input ff v =
     (let ff1 = add_input ff (path v);
          v1 = v\<lparr>ffmpeg_input_number := current_input_index ff1,
                 ffmpeg_video_stream := str_int (current_input_index ff1) @ '':v'',
                 ffmpeg_audio_stream := str_int (current_input_index ff1) @ '':a''\<rparr>
      in if video_type v1 = Parked \<and> view_point v1 = Front
         then add_audio_stream ff1 v1
         else (ff1, v1))"

record VideoGroup =
  ffmpeg :: FFMPEG
  title :: string
  start_time :: nat
  end_time :: nat
  front_videos :: "Video list"
  back_videos :: "Video list"
  final_video :: "string option"

text \<open>\<open>VideoGroup.add_video\<close>, with the \<open>cmd\<close> of the global \<open>PROBE\<close> passed through.\<close>

definition add_video :: "env \<Rightarrow> string list \<Rightarrow> VideoGroup \<Rightarrow> string \<Rightarrow> VideoGroup \<times> string list" where
  "add_video e c g file =
     (case Video_init e c file of
        (video, c') \<Rightarrow>
          if duration_seconds video = None then (g, c')
          else if view_point video = Front
          then (g\<lparr>front_videos := front_videos g @ [video]\<rparr>, c')
          else (g\<lparr>back_videos := back_videos g @ [video]\<rparr>, c'))"

fun add_videos :: "env \<Rightarrow> string list \<Rightarrow> VideoGroup \<Rightarrow> string list \<Rightarrow> VideoGroup \<times> string list" where
  "add_videos e c g [] = (g, c)"
| "add_videos e c g (file # rest) =
     (case add_video e c g file of (g', c') \<Rightarrow> add_videos e c' g' rest)"

text \<open>
  \<open>VideoGroup.__init__\<close> as \<open>get_videos\<close> calls it, with no builder given: a new
  \<open>FFMPEG(use_gpu=True)\<close>, its \<open>debug\<close> set to \<open>DEBUG\<close>, the videos added, the title
  formatted from the start time.
\<close>

definition VideoGroup_init ::
  "env \<Rightarrow> string list \<Rightarrow> nat \<Rightarrow> nat \<Rightarrow> string list \<Rightarrow> VideoGroup \<times> string list" where
  "VideoGroup_init e c start_t end_t videos =
     (case add_videos e c
        \<lparr>ffmpeg = (FFMPEG_init ''ffmpeg'' True)\<lparr>debug := DEBUG\<rparr>,
         title = [],
         start_time = start_t, end_time = end_t,
         front_videos = [], back_videos = [], final_video = None\<rparr> videos of
        (g, c') \<Rightarrow> (g\<lparr>title := strftime e (start_time g)\<rparr>, c'))"

section \<open>main.py: get_videos\<close>

text \<open>
  The test of the inner loop of \<open>get_videos\<close>,
  \<open>file_datetime - datetime.timedelta(hours=2) < video.end_time\<close>: its value, or the
  exception of the subtraction.
\<close>

definition within_window :: "nat \<Rightarrow> VideoGroup \<Rightarrow> error + bool" where
  "within_window file_datetime video =
     (case datetime_sub file_datetime (timedelta_hours 2) of
        Inl err \<Rightarrow> Inl err
      | Inr t \<Rightarrow> Inr (t < end_time video))"

text \<open>
  The inner loop of \<open>get_videos\<close> over the groups built so far, for a file with
  timestamp \<open>file_datetime\<close>: the first group that passes the test gets the file's
  timestamp as its end and then the file, and the loop breaks. The result is
  \<open>found_group\<close>, the groups and the probe's \<open>cmd\<close>, or the exception of the test.
\<close>

fun find_group ::
  "env \<Rightarrow> string list \<Rightarrow> nat \<Rightarrow> string \<Rightarrow> VideoGroup list
     \<Rightarrow> error + (bool \<times> VideoGroup list \<times> string list)" where
  "find_group e c file_datetime file [] = Inr (False, [], c)"
| "find_group e c file_datetime file (video # videos) =
     (case within_window file_datetime video of
        Inl err \<Rightarrow> Inl err
      | Inr True \<Rightarrow>
          (case add_video e c (video\<lparr>end_time := file_datetime\<rparr>) file of
             (video', c') \<Rightarrow> Inr (True, video' # videos, c'))
      | Inr False \<Rightarrow>
          (case find_group e c file_datetime file videos of
             Inl err \<Rightarrow> Inl err
           | Inr (found_group, videos', c') \<Rightarrow> Inr (found_group, video # videos', c')))"

text \<open>One iteration of the outer loop of \<open>get_videos\<close>.\<close>

definition process_file ::
  "env \<Rightarrow> VideoGroup list \<times> string list \<Rightarrow> string \<Rightarrow> error + (VideoGroup list \<times> string list)" where
  "process_file e st file =
     (case datetime_from_file_name e file of
        Inl err \<Rightarrow> Inl err
      | Inr file_datetime \<Rightarrow>
          (case find_group e (snd st) file_datetime file (fst st) of
             Inl err \<Rightarrow> Inl err
           | Inr (found_group, videos, c) \<Rightarrow>
               if found_group then Inr (videos, c)
               else (case VideoGroup_init e c file_datetime file_datetime [file] of
                       (g, c') \<Rightarrow> Inr (videos @ [g], c'))))"

fun process_files ::
  "env \<Rightarrow> VideoGroup list \<times> string list \<Rightarrow> string list
     \<Rightarrow> error + (VideoGroup list \<times> string list)" where
  "process_files e st [] = Inr st"
| "process_files e st (file # files) =
     (case process_file e st file of
        Inl err \<Rightarrow> Inl err
      | Inr st' \<Rightarrow> process_files e st' files)"

text \<open>
  \<open>get_videos\<close>, given the entries of the input directory in the order \<open>iterdir\<close> lists
  them and the \<open>cmd\<close> of the global \<open>PROBE\<close>.
\<close>

definition get_videos ::
  "env \<Rightarrow> string list \<Rightarrow> string list \<Rightarrow> error + (VideoGroup list \<times> string list)" where
  "get_videos e c files = process_files e ([], c) files"

section \<open>main.py: VideoGroup.make_video\<close>

text \<open>
  The pairs \<open>list(zip(front_videos, back_videos))\<close> and the batches
  \<open>[pairs[i : i + 4] for i in range(0, len(pairs), 4)]\<close>.
\<close>

definition batches_of :: "'a list \<Rightarrow> 'a list list" where
  "batches_of front_and_back_videos =
     map (\<lambda>i. slice front_and_back_videos i (i + 4))
         (py_range 0 (length front_and_back_videos) 4)"

definition group_batches :: "'a list \<Rightarrow> 'b list \<Rightarrow> ('a \<times> 'b) list list" where
  "group_batches fronts backs = batches_of (zip fronts backs)"

text \<open>
  The loop \<open>for front_video, back_video in batch\<close> that adds both clips of every pair as
  inputs; it returns the pairs with the stream names the clips were given.
\<close>

fun add_inputs :: "FFMPEG \<Rightarrow> (Video \<times> Video) list \<Rightarrow> FFMPEG \<times> (Video \<times> Video) list" where
  "add_inputs ff [] = (ff, [])"
| "add_inputs ff ((front_video, back_video) # batch) =
     (case add_as_ffmpeg_input ff front_video of
        (ff1, front_video') \<Rightarrow>
          (case add_as_ffmpeg_input ff1 back_video of
             (ff2, back_video') \<Rightarrow>
               (case add_inputs ff2 batch of
                  (ff3, batch') \<Rightarrow> (ff3, (front_video', back_video') # batch'))))"

definition streams_of :: "Video \<Rightarrow> Input \<times> Input" where
  "streams_of video = (IStr (ffmpeg_video_stream video), IStr (ffmpeg_audio_stream video))"

text \<open>
  The body of the loop over the batches up to \<open>add_output\<close>: the builder that
  \<open>self.ffmpeg.run()\<close> then runs, and the batch with its clips updated. The branch
  \<open>if DEBUG\<close> before the run prints the builder and waits for a key; \<open>DEBUG\<close> is False.
\<close>

definition build_batch :: "FFMPEG \<Rightarrow> (Video \<times> Video) list \<Rightarrow> string \<Rightarrow> FFMPEG \<times> (Video \<times> Video) list" where
  "build_batch ff batch output_file =
     (case add_inputs (reset ff) batch of
        (ff1, batch') \<Rightarrow>
          (let ff2 = FFMPEG_concat ff1 (map (\<lambda>p. streams_of (fst p)) batch')
                       (Some ''front_v'') (Some ''front_a'');
               ff3 = FFMPEG_concat ff2 (map (\<lambda>p. streams_of (snd p)) batch')
                       (Some ''back_v'') None;
               ff4 = FFMPEG_scale ff3 (IStr ''back_v'') ''1280.0'' ''720.0'' ''back_v'';
               ff5 = FFMPEG_overlay ff4 (IStr ''front_v'') (IStr ''back_v'') ''0'' ''0'' ''v'';
               ff6 = FFMPEG_map (FFMPEG_map ff5 (IStr ''v'')) (IStr ''front_a'')
           in (add_output ff6 output_file, batch')))"

text \<open>
  The loop \<open>for index, batch in enumerate(batches)\<close>, from index \<open>index\<close> on. An exception
  of \<open>run\<close> leaves the loop. The result: the exception if any, the builder, the world,
  the \<open>batch_files\<close> appended and the batches with the clips of the batches reached
  updated.
\<close>

fun render_batches ::
  "env \<Rightarrow> string \<Rightarrow> FFMPEG \<Rightarrow> world \<Rightarrow> nat \<Rightarrow> (Video \<times> Video) list list
     \<Rightarrow> error option \<times> FFMPEG \<times> world \<times> string list \<times> (Video \<times> Video) list list" where
  "render_batches e t ff w index [] = (None, ff, w, [], [])"
| "render_batches e t ff w index (batch # batches) =
     (let output_file = t @ ''_'' @ str_nat index @ ''.mp4''
      in case build_batch ff batch output_file of
           (ff1, batch') \<Rightarrow>
             (case FFMPEG_run e ff1 w of
                (Some err, w1) \<Rightarrow> (Some err, ff1, w1, [output_file], batch' # batches)
              | (None, w1) \<Rightarrow>
                  (case render_batches e t ff1 w1 (Suc index) batches of
                     (r, ff2, w2, batch_files, batches') \<Rightarrow>
                       (r, ff2, w2, output_file # batch_files, batch' # batches'))))"

text \<open>The argument vector of the final merge.\<close>

definition merge_cmd :: "string list \<Rightarrow> string \<Rightarrow> string list" where
  "merge_cmd batch_files final_output_file =
     [''ffmpeg''] @ concat (map (\<lambda>batch_file. [''-i'', batch_file]) batch_files)
     @ [''-filter_complex'', ''concat=n='' @ str_nat (length batch_files) @ '':v=1:a=1'',
        ''-c:v'', ''h264_nvenc'', ''-preset'', ''slow'', ''-qp'', ''20'',
        ''-c:a'', ''aac'', ''-b:a'', ''44100'', final_output_file]"

text \<open>
  \<open>VideoGroup.make_video\<close>: the exception it raises if any, the group and the world
  afterwards. The clips of the group that the batches reached carry their new stream
  names. The exit code of the merge is read by nobody.
\<close>

definition store_videos :: "VideoGroup \<Rightarrow> FFMPEG \<Rightarrow> (Video \<times> Video) list list \<Rightarrow> VideoGroup" where
  "store_videos g ff batches' =
     g\<lparr>ffmpeg := ff,
       front_videos := map fst (concat batches') @ drop (length (concat batches')) (front_videos g),
       back_videos := map snd (concat batches') @ drop (length (concat batches')) (back_videos g)\<rparr>"

definition make_video :: "env \<Rightarrow> VideoGroup \<Rightarrow> world \<Rightarrow> error option \<times> VideoGroup \<times> world" where
  "make_video e g w =
     (let final_output_file = title g @ ''.mp4''
      in if path_exists w final_output_file \<and> \<not> DEBUG then (None, g, w)
         else
           (case render_batches e (title g) (ffmpeg g) w 0
                   (group_batches (front_videos g) (back_videos g)) of
              (Some err, ff, w1, batch_files, batches') \<Rightarrow>
                (Some err, store_videos g ff batches', w1)
            | (None, ff, w1, batch_files, batches') \<Rightarrow>
                (case popen_wait e (merge_cmd batch_files final_output_file) w1 of
                   (returncode, w2) \<Rightarrow>
                     (None, (store_videos g ff batches')\<lparr>final_video := Some final_output_file\<rparr>,
                      w2))))"

text \<open>
  The loop \<open>for v in vs: v.make_video()\<close> of the main program (the table it prints after
  each group reads the groups and changes nothing). An exception of \<open>make_video\<close> is not
  caught: it ends the loop and the program.
\<close>

fun render_all :: "env \<Rightarrow> VideoGroup list \<Rightarrow> world \<Rightarrow> error option \<times> VideoGroup list \<times> world" where
  "render_all e [] w = (None, [], w)"
| "render_all e (v # vs) w =
     (case make_video e v w of
        (Some err, v', w1) \<Rightarrow> (Some err, v' # vs, w1)
      | (None, v', w1) \<Rightarrow>
          (case render_all e vs w1 of (r, vs', w2) \<Rightarrow> (r, v' # vs', w2)))"

section \<open>Example inputs\<close>

text \<open>
  A small environment: clips of 1 January 2023 (10:00:00 front and back, 11:00:00 and
  13:00:00 front), a file of 10:30:00 that the probe rejects, a file of
  0001-01-01 01:00:00 and a file whose name holds no timestamp.
  Timestamps are the seconds since 0001-01-01 00:00:00; \<open>ex_strftime\<close> lists the titles
  of the timestamps that occur in the examples and is empty elsewhere. Three encoders: one that always
  succeeds, one whose merge fails (the merge is the invocation without \<open>-map\<close>), one that
  always fails.
\<close>

definition ex_file_a :: string where
  "ex_file_a = ''input/20230101_100000A.mp4''"

definition ex_file_b :: string where
  "ex_file_b = ''input/20230101_100000B.mp4''"

definition ex_file_bad :: string where
  "ex_file_bad = ''input/20230101_103000B.mp4''"

definition ex_file_late :: string where
  "ex_file_late = ''input/20230101_130000A.mp4''"

definition ex_file_next :: string where
  "ex_file_next = ''input/20230101_110000A.mp4''"

definition ex_file_year1 :: string where
  "ex_file_year1 = ''input/00010101_010000A.mp4''"

definition ex_file_noise :: string where
  "ex_file_noise = ''input/notes.txt''"

definition ex_strptime :: "string \<Rightarrow> nat option" where
  "ex_strptime s =
     (if s = ''20230101_100000'' then Some 63808164000
      else if s = ''20230101_103000'' then Some 63808165800
      else if s = ''20230101_110000'' then Some 63808167600
      else if s = ''20230101_130000'' then Some 63808174800
      else if s = ''00010101_010000'' then Some 3600
      else None)"

definition ex_strftime :: "nat \<Rightarrow> string" where
  "ex_strftime t =
     (if t = 63808153200 then ''01 Jan 2023 07-00-00''
      else if t = 63808164000 then ''01 Jan 2023 10-00-00''
      else if t = 63808165800 then ''01 Jan 2023 10-30-00''
      else if t = 63808167600 then ''01 Jan 2023 11-00-00''
      else if t = 63808174800 then ''01 Jan 2023 13-00-00''
      else if t = 3600 then ''01 Jan 1 01-00-00''
      else [])"

definition ex_ffprobe :: "string list \<Rightarrow> int \<times> string" where
  "ex_ffprobe argv = (if last argv = ex_file_bad then (1, []) else (0, ''60.000000''))"

definition ex_to_seconds :: "string \<Rightarrow> int option" where
  "ex_to_seconds out = (if out = ''60.000000'' then Some 60 else None)"

definition ex_encoder_ok :: "string list \<Rightarrow> world \<Rightarrow> int \<times> string list" where
  "ex_encoder_ok argv w = (0, last argv # on_disk w)"

definition ex_encoder_merge_fails :: "string list \<Rightarrow> world \<Rightarrow> int \<times> string list" where
  "ex_encoder_merge_fails argv w =
     (if ''-map'' \<in> set argv then (0, last argv # on_disk w) else (1, on_disk w))"

definition ex_encoder_fails :: "string list \<Rightarrow> world \<Rightarrow> int \<times> string list" where
  "ex_encoder_fails argv w = (1, on_disk w)"

definition ex_env :: env where
  "ex_env = \<lparr>strptime = ex_strptime, strftime = ex_strftime, ffprobe = ex_ffprobe,
             to_seconds = ex_to_seconds, encoder = ex_encoder_ok\<rparr>"

definition ex_env_merge_fails :: env where
  "ex_env_merge_fails = ex_env\<lparr>encoder := ex_encoder_merge_fails\<rparr>"

definition ex_env_fails :: env where
  "ex_env_fails = ex_env\<lparr>encoder := ex_encoder_fails\<rparr>"

definition ex_world :: world where
  "ex_world = \<lparr>on_disk = [], runs = []\<rparr>"

definition ex_world_done :: world where
  "ex_world_done = \<lparr>on_disk = [''01 Jan 2023 10-00-00.mp4''], runs = []\<rparr>"

definition ex_video :: "string \<Rightarrow> VideoViewPointType \<Rightarrow> Video" where
  "ex_video p vp =
     \<lparr>path = p, view_point = vp, video_type = Moving, duration_seconds = Some 60,
      ffmpeg_input_number = 0, ffmpeg_video_stream = ''0:v'', ffmpeg_audio_stream = ''0:a''\<rparr>"

definition ex_group_of :: "string \<Rightarrow> nat \<Rightarrow> Video list \<Rightarrow> Video list \<Rightarrow> VideoGroup" where
  "ex_group_of t start fronts backs =
     \<lparr>ffmpeg = (FFMPEG_init ''ffmpeg'' True)\<lparr>debug := DEBUG\<rparr>, title = t,
      start_time = start, end_time = start,
      front_videos = fronts, back_videos = backs, final_video = None\<rparr>"

definition ex_group :: VideoGroup where
  "ex_group = ex_group_of ''01 Jan 2023 10-00-00'' 63808164000
     [ex_video ex_file_a Front] [ex_video ex_file_b Back]"

definition ex_group5 :: VideoGroup where
  "ex_group5 = ex_group_of ''01 Jan 2023 10-00-00'' 63808164000
     (replicate 5 (ex_video ex_file_a Front)) (replicate 5 (ex_video ex_file_b Back))"

definition ex_group_early :: VideoGroup where
  "ex_group_early = ex_group_of ''01 Jan 2023 07-00-00'' 63808153200 [] []"

definition ex_group_late :: VideoGroup where
  "ex_group_late = ex_group_of ''01 Jan 2023 13-00-00'' 63808174800
     [ex_video ex_file_late Front] [ex_video ex_file_b Back]"

text \<open>What the examples observe of a result: the groups, and the paths of a group's clips.\<close>

definition result_groups :: "error + (VideoGroup list \<times> string list) \<Rightarrow> VideoGroup list" where
  "result_groups r = (case r of Inl err \<Rightarrow> [] | Inr st \<Rightarrow> fst st)"

definition clip_paths :: "VideoGroup \<Rightarrow> string list" where
  "clip_paths g = map path (front_videos g) @ map path (back_videos g)"

section \<open>Evaluating the text functions\<close>

lemma str_nat_lt10: "n < 10 \<Longrightarrow> str_nat n = [digit_char n]"
  by (simp add: str_nat.simps)

lemma digit_char_values:
  "digit_char 0 = CHR ''0''" "digit_char (Suc 0) = CHR ''1''" "digit_char 1 = CHR ''1''"
  "digit_char 2 = CHR ''2''" "digit_char 3 = CHR ''3''" "digit_char 4 = CHR ''4''"
  by (simp_all add: digit_char_def)

lemmas str_eval = str_nat_lt10 digit_char_values str_int_def

section \<open>Pairing and batching\<close>










section \<open>The encoder invocations of a render\<close>

lemma add_inputs_length:
  "add_inputs ff batch = (ff', batch') \<Longrightarrow> length batch' = length batch"
proof (induction batch arbitrary: ff ff' batch')
  case Nil
  then show ?case by simp
next
  case (Cons p batch)
  obtain front_video back_video where p: "p = (front_video, back_video)" by (cases p)
  obtain ff1 f' where f: "add_as_ffmpeg_input ff front_video = (ff1, f')"
    by (cases "add_as_ffmpeg_input ff front_video")
  obtain ff2 b' where b: "add_as_ffmpeg_input ff1 back_video = (ff2, b')"
    by (cases "add_as_ffmpeg_input ff1 back_video")
  obtain ff3 rest where r: "add_inputs ff2 batch = (ff3, rest)"
    by (cases "add_inputs ff2 batch")
  from Cons.prems p f b r have "batch' = (f', b') # rest" by simp
  with Cons.IH [OF r] show ?case by simp
qed

lemma build_batch_output_added: "output_added (fst (build_batch ff batch output_file))"
  by (cases "add_inputs (reset ff) batch") (simp add: build_batch_def add_output_def Let_def)

lemma build_batch_length: "length (snd (build_batch ff batch output_file)) = length batch"
proof (cases "add_inputs (reset ff) batch")
  case (Pair ff1 batch')
  with add_inputs_length [OF Pair] show ?thesis
    by (simp add: build_batch_def Let_def)
qed

lemma FFMPEG_run_runs:
  "output_added ff \<Longrightarrow> runs (snd (FFMPEG_run e ff w)) = runs w @ [cmd ff]"
  by (cases "encoder e (cmd ff) w") (simp add: FFMPEG_run_def popen_wait_def)

lemma render_batches_ok:
  "render_batches e t ff w index batches = (None, ff', w', batch_files, batches') \<Longrightarrow>
     batch_files = map (\<lambda>k. t @ ''_'' @ str_nat k @ ''.mp4'') [index..<index + length batches]
     \<and> length (runs w') = length (runs w) + length batches"
proof (induction batches arbitrary: ff w index ff' w' batch_files batches')
  case Nil
  then show ?case by simp
next
  case (Cons batch batches)
  obtain ff1 batch' where b: "build_batch ff batch (t @ ''_'' @ str_nat index @ ''.mp4'') = (ff1, batch')"
    by (cases "build_batch ff batch (t @ ''_'' @ str_nat index @ ''.mp4'')")
  obtain r1 w1 where r: "FFMPEG_run e ff1 w = (r1, w1)"
    by (cases "FFMPEG_run e ff1 w")
  from Cons.prems b r have r1: "r1 = None"
    by (cases r1) (simp_all add: Let_def)
  obtain r2 ff2 w2 fs2 bs2 where rec: "render_batches e t ff1 w1 (Suc index) batches = (r2, ff2, w2, fs2, bs2)"
    by (cases "render_batches e t ff1 w1 (Suc index) batches") auto
  from Cons.prems b r r1 rec have eqs: "r2 = None" "w' = w2" "batch_files = (t @ ''_'' @ str_nat index @ ''.mp4'') # fs2"
    by (simp_all add: Let_def)
  from rec eqs(1) Cons.IH [of ff1 w1 "Suc index" ff2 w2 fs2 bs2]
  have ih: "fs2 = map (\<lambda>k. t @ ''_'' @ str_nat k @ ''.mp4'') [Suc index..<Suc index + length batches]"
    "length (runs w2) = length (runs w1) + length batches"
    by simp_all
  from build_batch_output_added [of ff batch "t @ ''_'' @ str_nat index @ ''.mp4''"] b
  have "output_added ff1" by simp
  from FFMPEG_run_runs [OF this, of e w] r have w1: "runs w1 = runs w @ [cmd ff1]" by simp
  have upt: "[index..<index + length (batch # batches)] = index # [Suc index..<Suc index + length batches]"
    by (simp add: upt_conv_Cons del: upt_Suc)
  from ih eqs w1 show ?case by (simp only: upt list.map) simp
qed

lemma make_video_runs:
  assumes "\<not> path_exists w (title g @ ''.mp4'')"
    and "make_video e g w = (None, g', w')"
  shows "length (runs w') = length (runs w) + length (group_batches (front_videos g) (back_videos g)) + 1
     \<and> last (runs w') = merge_cmd (map (\<lambda>k. title g @ ''_'' @ str_nat k @ ''.mp4'')
            [0..<length (group_batches (front_videos g) (back_videos g))]) (title g @ ''.mp4'')"
proof -
  obtain r ff w1 fs bs where rb: "render_batches e (title g) (ffmpeg g) w 0
        (group_batches (front_videos g) (back_videos g)) = (r, ff, w1, fs, bs)"
    by (cases "render_batches e (title g) (ffmpeg g) w 0
        (group_batches (front_videos g) (back_videos g))") auto
  from assms rb have r: "r = None"
    by (cases r) (simp_all add: make_video_def Let_def split: prod.splits)
  from assms rb r have w': "w' = snd (popen_wait e (merge_cmd fs (title g @ ''.mp4'')) w1)"
    by (simp add: make_video_def Let_def split: prod.splits)
  from render_batches_ok [OF rb [unfolded r]]
  have fs: "fs = map (\<lambda>k. title g @ ''_'' @ str_nat k @ ''.mp4'')
            [0..<length (group_batches (front_videos g) (back_videos g))]"
    and n: "length (runs w1) = length (runs w) + length (group_batches (front_videos g) (back_videos g))"
    by simp_all
  from w' have "runs w' = runs w1 @ [merge_cmd fs (title g @ ''.mp4'')]"
    by (simp add: popen_wait_def split: prod.splits)
  with fs n show ?thesis by simp
qed








section \<open>The concat fragment\<close>

lemma concat_tail_not_audio_only:
  "concat_tail output_video output_audio \<noteq> ''a=1['' @ format_opt output_audio @ ''];''"
  by (simp add: concat_tail_def)

lemma concat_fragment_last:
  "last (filter_complex (FFMPEG_concat ff input output_video output_audio))
     = concat_filter input output_video output_audio"
  by (simp add: FFMPEG_concat_def)

text \<open>
  Claim C10 says that \<open>FFMPEG.concat\<close> with \<open>output_video = None\<close> and any
  \<open>output_audio\<close> other than \<open>None\<close> appends a fragment with \<open>v=1:a=1\<close> and the label
  \<open>[None]\<close>. The empty string is such an \<open>output_audio\<close>, and it is false in every test of
  the method: the fragment is then \<open>concat=n=1:\<close> with no stream part at all.
\<close>

theorem C10_counterexample:
  "last (filter_complex (FFMPEG_concat (FFMPEG_init ''ffmpeg'' True)
      [(IStr ''0:v'', IStr ''0:a'')] None (Some []))) = ''concat=n=1:''
   \<and> \<not> sublist ''v=1:a=1'' (last (filter_complex (FFMPEG_concat (FFMPEG_init ''ffmpeg'' True)
      [(IStr ''0:v'', IStr ''0:a'')] None (Some []))))
   \<and> \<not> sublist ''[None]'' (last (filter_complex (FFMPEG_concat (FFMPEG_init ''ffmpeg'' True)
      [(IStr ''0:v'', IStr ''0:a'')] None (Some []))))"
proof -
  have "concat_filter [(IStr ''0:v'', IStr ''0:a'')] None (Some []) = ''concat=n=1:''"
    by (simp add: concat_filter_def concat_tail_def str_eval)
  then show ?thesis
    by (simp add: concat_fragment_last sublist_Cons_right)
qed

text \<open>
  Claim C10, amended. For every call of \<open>FFMPEG.concat\<close> with \<open>output_video = None\<close> and a
  non-empty \<open>output_audio\<close>, the fragment appended is the audio labels, \<open>concat=n=<n>\<close> and
  \<open>:v=1:a=1[None][<output_audio>];\<close>, so it contains \<open>v=1:a=1\<close> and the label \<open>[None]\<close>.
  For no arguments at all is the fragment the audio-only form, the labels and
  \<open>concat=n=<n>:a=1[<output_audio>];\<close>: whenever \<open>output_audio\<close> is true the first
  branch, which tests it twice, is taken.
\<close>

theorem C10_concat_without_video:
  "(output_audio \<noteq> [] \<longrightarrow>
      last (filter_complex (FFMPEG_concat ff input None (Some output_audio)))
        = concat_labels input None (Some output_audio) @ ''concat=n='' @ str_nat (length input)
          @ '':v=1:a=1[None]['' @ output_audio @ ''];''
      \<and> sublist ''v=1:a=1'' (last (filter_complex (FFMPEG_concat ff input None (Some output_audio))))
      \<and> sublist ''[None]'' (last (filter_complex (FFMPEG_concat ff input None (Some output_audio)))))
   \<and> last (filter_complex (FFMPEG_concat ff' input' video' audio'))
        \<noteq> concat_labels input' video' audio' @ ''concat=n='' @ str_nat (length input')
          @ '':a=1['' @ format_opt audio' @ ''];''"
proof -
  have never: "last (filter_complex (FFMPEG_concat ff' input' video' audio'))
        \<noteq> concat_labels input' video' audio' @ ''concat=n='' @ str_nat (length input')
          @ '':a=1['' @ format_opt audio' @ ''];''"
    using concat_tail_not_audio_only [of video' audio']
    by (simp add: concat_fragment_last concat_filter_def)
  have form: "last (filter_complex (FFMPEG_concat ff input None (Some output_audio)))
        = concat_labels input None (Some output_audio) @ ''concat=n='' @ str_nat (length input)
          @ '':v=1:a=1[None]['' @ output_audio @ ''];''" if "output_audio \<noteq> []"
    using that by (simp add: concat_fragment_last concat_filter_def concat_tail_def)
  have sub1: "sublist ''v=1:a=1'' (pre @ '':v=1:a=1[None]['' @ post)" for pre post :: string
    using sublist_appendI [of "''v=1:a=1''" "pre @ '':''" "''[None]['' @ post"] by simp
  have sub2: "sublist ''[None]'' (pre @ '':v=1:a=1[None]['' @ post)" for pre post :: string
    using sublist_appendI [of "''[None]''" "pre @ '':v=1:a=1''" "''['' @ post"] by simp
  from never form sub1 sub2 show ?thesis
    by (metis append.assoc)
qed

theorem C10_witness:
  "''front_a'' \<noteq> []
   \<and> last (filter_complex (FFMPEG_concat (FFMPEG_init ''ffmpeg'' True)
        [(IStr ''0:v'', IStr ''0:a'')] None (Some ''front_a'')))
      = ''[0:a]concat=n=1:v=1:a=1[None][front_a];''"
  using C10_concat_without_video [of "''front_a''" "FFMPEG_init ''ffmpeg'' True"
      "[(IStr ''0:v'', IStr ''0:a'')]"]
  by (simp add: str_eval)

section \<open>Skipping, failing and merging\<close>

lemma build_batch_has_map: "''-map'' \<in> set (cmd (fst (build_batch ff batch output_file)))"
  by (cases "add_inputs (reset ff) batch")
     (simp add: build_batch_def add_output_def add_filter_complex_def add_settings_def
        FFMPEG_map_def FFMPEG_overlay_def FFMPEG_scale_def FFMPEG_concat_def Let_def)

lemma render_batches_chunks_ok:
  assumes ok: "\<And>argv w. ''-map'' \<in> set argv \<Longrightarrow> fst (encoder e argv w) = 0"
  shows "fst (render_batches e t ff w index batches) = None"
proof (induction batches arbitrary: ff w index)
  case Nil
  show ?case by simp
next
  case (Cons batch batches)
  obtain ff1 batch' where b: "build_batch ff batch (t @ ''_'' @ str_nat index @ ''.mp4'') = (ff1, batch')"
    by (cases "build_batch ff batch (t @ ''_'' @ str_nat index @ ''.mp4'')")
  from build_batch_output_added [of ff batch "t @ ''_'' @ str_nat index @ ''.mp4''"] b
  have added: "output_added ff1" by simp
  from build_batch_has_map [of ff batch "t @ ''_'' @ str_nat index @ ''.mp4''"] b
  have "''-map'' \<in> set (cmd ff1)" by simp
  from ok [OF this, of w] obtain fs where enc: "encoder e (cmd ff1) w = (0, fs)"
    by (cases "encoder e (cmd ff1) w") simp
  from added enc have run: "FFMPEG_run e ff1 w = (None, w\<lparr>on_disk := fs, runs := runs w @ [cmd ff1]\<rparr>)"
    by (simp add: FFMPEG_run_def popen_wait_def)
  from Cons.IH [of ff1 "w\<lparr>on_disk := fs, runs := runs w @ [cmd ff1]\<rparr>" "Suc index"] b run
  show ?case by (auto simp add: Let_def split: prod.splits)
qed

lemma make_video_chunks_ok:
  assumes ok: "\<And>argv w. ''-map'' \<in> set argv \<Longrightarrow> fst (encoder e argv w) = 0"
  shows "fst (make_video e g w) = None"
proof -
  from render_batches_chunks_ok [of e "title g" "ffmpeg g" w 0 "group_batches (front_videos g) (back_videos g)"] ok
  have "fst (render_batches e (title g) (ffmpeg g) w 0 (group_batches (front_videos g) (back_videos g))) = None"
    by simp
  then show ?thesis
    by (auto simp add: make_video_def Let_def split: prod.splits option.splits)
qed

lemma make_video_records_final:
  assumes "\<not> path_exists w (title g @ ''.mp4'')" and "fst (make_video e g w) = None"
  shows "final_video (fst (snd (make_video e g w))) = Some (title g @ ''.mp4'')"
  using assms
  by (auto simp add: make_video_def Let_def split: prod.splits option.splits)


lemma make_video_first_chunk_fails:
  assumes absent: "\<not> path_exists w (title g @ ''.mp4'')"
    and batches: "group_batches (front_videos g) (back_videos g) = batch # batches"
    and rc: "fst (encoder e (cmd (fst (build_batch (ffmpeg g) batch (title g @ ''_0.mp4'')))) w) = rc"
    and nz: "rc \<noteq> 0"
  shows "fst (make_video e g w) = Some (RuntimeError rc)
     \<and> final_video (fst (snd (make_video e g w))) = final_video g
     \<and> runs (snd (snd (make_video e g w)))
         = runs w @ [cmd (fst (build_batch (ffmpeg g) batch (title g @ ''_0.mp4'')))]"
proof -
  obtain ff1 batch' where b: "build_batch (ffmpeg g) batch (title g @ ''_0.mp4'') = (ff1, batch')"
    by (cases "build_batch (ffmpeg g) batch (title g @ ''_0.mp4'')")
  from build_batch_output_added [of "ffmpeg g" batch "title g @ ''_0.mp4''"] b
  have added: "output_added ff1" by simp
  obtain fs where enc: "encoder e (cmd ff1) w = (rc, fs)"
    using rc b by (cases "encoder e (cmd ff1) w") simp
  from added enc nz
  have run: "FFMPEG_run e ff1 w = (Some (RuntimeError rc), w\<lparr>on_disk := fs, runs := runs w @ [cmd ff1]\<rparr>)"
    by (simp add: FFMPEG_run_def popen_wait_def)
  have "render_batches e (title g) (ffmpeg g) w 0 (batch # batches)
      = (Some (RuntimeError rc), ff1, w\<lparr>on_disk := fs, runs := runs w @ [cmd ff1]\<rparr>,
         [title g @ ''_0.mp4''], batch' # batches)"
    using b run by (simp add: Let_def str_eval)
  with absent batches b show ?thesis
    by (simp add: make_video_def Let_def DEBUG_def store_videos_def)
qed

lemma render_all_stops:
  assumes "fst (make_video e v w) = Some err"
  shows "render_all e (v # vs) w
     = (Some err, fst (snd (make_video e v w)) # vs, snd (snd (make_video e v w)))"
  using assms by (cases "make_video e v w") auto

lemma render_all_prefix:
  assumes "render_all e pre w = (None, pre', w1)"
    and "fst (make_video e v w1) = Some err"
  shows "render_all e (pre @ v # vs) w
     = (Some err, pre' @ fst (snd (make_video e v w1)) # vs, snd (snd (make_video e v w1)))"
  using assms
proof (induction pre arbitrary: w pre')
  case Nil
  then show ?case using render_all_stops [of e v w1 err vs] by simp
next
  case (Cons u pre)
  obtain r u' w0 where mv: "make_video e u w = (r, u', w0)" by (cases "make_video e u w") auto
  with Cons.prems(1) have r: "r = None" by (cases r) auto
  obtain r2 pre2 w2 where ra: "render_all e pre w0 = (r2, pre2, w2)"
    by (cases "render_all e pre w0") auto
  with Cons.prems(1) mv r have eqs: "r2 = None" "pre' = u' # pre2" "w1 = w2" by simp_all
  from Cons.IH [of w0 pre2] ra eqs Cons.prems(2)
  have "render_all e (pre @ v # vs) w0
     = (Some err, pre2 @ fst (snd (make_video e v w1)) # vs, snd (snd (make_video e v w1)))"
    by simp
  with mv r eqs show ?case by simp
qed



lemma py_range_0_1_4: "py_range 0 (Suc 0) 4 = [0]"
  by (simp add: py_range.simps)

lemma ex_group_batches:
  "group_batches (front_videos ex_group) (back_videos ex_group)
     = [[(ex_video ex_file_a Front, ex_video ex_file_b Back)]]"
  by (simp add: ex_group_def ex_group_of_def group_batches_def batches_of_def slice_def
        py_range_0_1_4)

lemmas builder_defs =
  build_batch_def add_as_ffmpeg_input_def add_audio_stream_def add_input_def add_output_def
  add_filter_complex_def add_settings_def compile_settings_def compile_filter_complex_def
  current_input_index_def reset_def set_defaults_def FFMPEG_init_def FFMPEG_concat_def
  FFMPEG_scale_def FFMPEG_overlay_def FFMPEG_map_def create_silent_audio_stream_def
  concat_filter_def concat_tail_def streams_of_def

lemma ex_group_chunk_cmd:
  "cmd (fst (build_batch (ffmpeg ex_group)
        [(ex_video ex_file_a Front, ex_video ex_file_b Back)] ''01 Jan 2023 10-00-00_0.mp4''))
   = [''ffmpeg'',
      ''-hwaccel'', ''cuda'', ''-hwaccel_output_format'', ''cuda'', ''-i'', ''input/20230101_100000A.mp4'',
      ''-hwaccel'', ''cuda'', ''-hwaccel_output_format'', ''cuda'', ''-i'', ''input/20230101_100000B.mp4'',
      ''-c:v'', ''h264_nvenc'', ''-c:a'', ''aac'', ''-b:a'', ''44100'', ''-qp'', ''20'',
      ''-preset'', ''slow'', ''-y'', ''-filter_complex'',
      ''[0:v][0:a]concat=n=1:v=1:a=1[front_v][front_a];[1:v]concat=n=1:v=1[back_v];''
      @ ''[back_v]scale_cuda='' @ [CHR 0x27] @ ''1280.0'' @ [CHR 0x27] @ '':'' @ [CHR 0x27] @ ''720.0''
      @ [CHR 0x27] @ ''[back_v];[front_v][back_v]overlay_cuda='' @ [CHR 0x27] @ ''0'' @ [CHR 0x27]
      @ '':'' @ [CHR 0x27] @ ''0'' @ [CHR 0x27] @ ''[v]'',
      ''-map'', ''[v]'', ''-map'', ''[front_a]'', ''01 Jan 2023 10-00-00_0.mp4'']"
  by (simp add: builder_defs ex_group_def ex_group_of_def ex_video_def ex_file_a_def ex_file_b_def
        Let_def str_eval DEBUG_def)

lemma ex_group_title: "title ex_group = ''01 Jan 2023 10-00-00''"
  by (simp add: ex_group_def ex_group_of_def)

lemma ex_world_absent: "\<not> path_exists ex_world p"
  by (simp add: path_exists_def ex_world_def)

lemma ex_merge_chunks_ok: "''-map'' \<in> set argv \<Longrightarrow> fst (encoder ex_env_merge_fails argv w) = 0"
  by (simp add: ex_env_merge_fails_def ex_env_def ex_encoder_merge_fails_def)

lemma ex_merge_fails:
  "fst (encoder ex_env_merge_fails
      (merge_cmd [''01 Jan 2023 10-00-00_0.mp4''] ''01 Jan 2023 10-00-00.mp4'') w) = 1"
  by (simp add: ex_env_merge_fails_def ex_env_def ex_encoder_merge_fails_def merge_cmd_def)

lemma make_video_on_disk:
  assumes "\<not> path_exists w (title g @ ''.mp4'')"
    and "render_batches e (title g) (ffmpeg g) w 0 (group_batches (front_videos g) (back_videos g))
           = (None, ff, w1, batch_files, batches')"
  shows "on_disk (snd (snd (make_video e g w)))
           = snd (encoder e (merge_cmd batch_files (title g @ ''.mp4'')) w1)"
  using assms
  by (cases "encoder e (merge_cmd batch_files (title g @ ''.mp4'')) w1")
     (simp add: make_video_def Let_def popen_wait_def)

lemma ex_group_render_batches:
  "\<exists>ff batches'. render_batches ex_env_merge_fails (title ex_group) (ffmpeg ex_group) ex_world 0
       (group_batches (front_videos ex_group) (back_videos ex_group))
     = (None, ff, \<lparr>on_disk = [''01 Jan 2023 10-00-00_0.mp4''],
          runs = [cmd (fst (build_batch (ffmpeg ex_group)
            [(ex_video ex_file_a Front, ex_video ex_file_b Back)] ''01 Jan 2023 10-00-00_0.mp4''))]\<rparr>,
        [''01 Jan 2023 10-00-00_0.mp4''], batches')"
proof -
  obtain ff1 batch' where b: "build_batch (ffmpeg ex_group)
      [(ex_video ex_file_a Front, ex_video ex_file_b Back)] ''01 Jan 2023 10-00-00_0.mp4'' = (ff1, batch')"
    by (cases "build_batch (ffmpeg ex_group)
      [(ex_video ex_file_a Front, ex_video ex_file_b Back)] ''01 Jan 2023 10-00-00_0.mp4''")
  from build_batch_output_added [of "ffmpeg ex_group"
      "[(ex_video ex_file_a Front, ex_video ex_file_b Back)]" "''01 Jan 2023 10-00-00_0.mp4''"] b
  have added: "output_added ff1" by simp
  from build_batch_has_map [of "ffmpeg ex_group"
      "[(ex_video ex_file_a Front, ex_video ex_file_b Back)]" "''01 Jan 2023 10-00-00_0.mp4''"] b
  have has_map: "''-map'' \<in> set (cmd ff1)" by simp
  from ex_group_chunk_cmd b have "last (cmd ff1) = ''01 Jan 2023 10-00-00_0.mp4''" by simp
  with has_map have "encoder ex_env_merge_fails (cmd ff1) ex_world = (0, [''01 Jan 2023 10-00-00_0.mp4''])"
    by (simp add: ex_env_merge_fails_def ex_env_def ex_encoder_merge_fails_def ex_world_def)
  with added have "FFMPEG_run ex_env_merge_fails ff1 ex_world
      = (None, \<lparr>on_disk = [''01 Jan 2023 10-00-00_0.mp4''], runs = [cmd ff1]\<rparr>)"
    by (simp add: FFMPEG_run_def popen_wait_def ex_world_def)
  with b show ?thesis
    by (simp add: ex_group_batches ex_group_title Let_def str_eval)
qed

lemma ex_group_merge_on_disk:
  "on_disk (snd (snd (make_video ex_env_merge_fails ex_group ex_world)))
     = [''01 Jan 2023 10-00-00_0.mp4'']"
proof -
  from ex_group_render_batches obtain ff batches' where
    "render_batches ex_env_merge_fails (title ex_group) (ffmpeg ex_group) ex_world 0
       (group_batches (front_videos ex_group) (back_videos ex_group))
     = (None, ff, \<lparr>on_disk = [''01 Jan 2023 10-00-00_0.mp4''],
          runs = [cmd (fst (build_batch (ffmpeg ex_group)
            [(ex_video ex_file_a Front, ex_video ex_file_b Back)] ''01 Jan 2023 10-00-00_0.mp4''))]\<rparr>,
        [''01 Jan 2023 10-00-00_0.mp4''], batches')"
    by blast
  from make_video_on_disk [OF ex_world_absent this] show ?thesis
    by (simp add: ex_group_title ex_env_merge_fails_def ex_env_def ex_encoder_merge_fails_def
          merge_cmd_def)
qed

text \<open>
  Claim C5 holds for the per-chunk renders and fails for the final merge. The example
  group has one front and one back clip; its chunk render exits with 0 and writes the
  intermediate file, its merge exits with 1 and writes nothing. \<open>make_video\<close> raises
  nothing and records the final output path, although that file does not exist:
  \<open>FFMPEG.run\<close> checks the exit code of a chunk render, and nothing checks the exit code
  of the merge.
\<close>

theorem C5_merge_exit_code_unread:
  "fst (make_video ex_env_merge_fails ex_group ex_world) = None
   \<and> length (runs (snd (snd (make_video ex_env_merge_fails ex_group ex_world)))) = 2
   \<and> last (runs (snd (snd (make_video ex_env_merge_fails ex_group ex_world))))
       = merge_cmd [''01 Jan 2023 10-00-00_0.mp4''] ''01 Jan 2023 10-00-00.mp4''
   \<and> fst (encoder ex_env_merge_fails
         (merge_cmd [''01 Jan 2023 10-00-00_0.mp4''] ''01 Jan 2023 10-00-00.mp4'') ex_world) = 1
   \<and> on_disk (snd (snd (make_video ex_env_merge_fails ex_group ex_world)))
       = [''01 Jan 2023 10-00-00_0.mp4'']
   \<and> final_video (fst (snd (make_video ex_env_merge_fails ex_group ex_world)))
       = Some ''01 Jan 2023 10-00-00.mp4''"
proof -
  have none: "fst (make_video ex_env_merge_fails ex_group ex_world) = None"
    by (rule make_video_chunks_ok) (rule ex_merge_chunks_ok)
  obtain g' w' where mv: "make_video ex_env_merge_fails ex_group ex_world = (None, g', w')"
    using none by (cases "make_video ex_env_merge_fails ex_group ex_world") auto
  from make_video_runs [OF ex_world_absent mv]
  have "length (runs w') = 2"
    and "last (runs w') = merge_cmd [''01 Jan 2023 10-00-00_0.mp4''] ''01 Jan 2023 10-00-00.mp4''"
    by (simp_all add: ex_group_batches ex_group_title ex_world_def str_eval)
  moreover from make_video_records_final [OF ex_world_absent none]
  have "final_video g' = Some ''01 Jan 2023 10-00-00.mp4''"
    by (simp add: mv ex_group_title)
  moreover from ex_group_merge_on_disk mv
  have "on_disk w' = [''01 Jan 2023 10-00-00_0.mp4'']" by simp
  ultimately show ?thesis
    using mv ex_merge_fails [of ex_world] by simp
qed

text \<open>
  Claim C4. When the final output file \<open><title>.mp4\<close> of a group exists, \<open>make_video\<close>
  returns at once: no exception, the group and the world as they were, so no encoder
  process is run; and a second call, made on what the first returned, does the same.
\<close>

theorem C4_existing_output_skips_render:
  assumes "path_exists w (title g @ ''.mp4'')"
  shows "make_video e g w = (None, g, w)
     \<and> runs (snd (snd (make_video e g w))) = runs w
     \<and> make_video e (fst (snd (make_video e g w))) (snd (snd (make_video e g w))) = (None, g, w)"
  using assms by (simp add: make_video_def DEBUG_def)

theorem C4_witness:
  "path_exists ex_world_done (title ex_group @ ''.mp4'')
   \<and> make_video ex_env ex_group ex_world_done = (None, ex_group, ex_world_done)
   \<and> runs (snd (snd (make_video ex_env ex_group ex_world_done))) = []"
proof -
  have "path_exists ex_world_done (title ex_group @ ''.mp4'')"
    by (simp add: path_exists_def ex_world_done_def ex_group_title)
  from this C4_existing_output_skips_render [OF this, of ex_env] show ?thesis
    by (simp add: ex_world_done_def)
qed


lemma FFMPEG_run_raises:
  "output_added ff \<Longrightarrow> fst (FFMPEG_run e ff w) = Some err \<Longrightarrow> \<exists>rc. err = RuntimeError rc \<and> rc \<noteq> 0"
  by (cases "encoder e (cmd ff) w") (auto simp add: FFMPEG_run_def popen_wait_def split: if_splits)

lemma render_batches_raises:
  "fst (render_batches e t ff w index batches) = Some err \<Longrightarrow> \<exists>rc. err = RuntimeError rc \<and> rc \<noteq> 0"
proof (induction batches arbitrary: ff w index)
  case Nil
  then show ?case by simp
next
  case (Cons batch batches)
  obtain ff1 batch' where b: "build_batch ff batch (t @ ''_'' @ str_nat index @ ''.mp4'') = (ff1, batch')"
    by (cases "build_batch ff batch (t @ ''_'' @ str_nat index @ ''.mp4'')")
  from build_batch_output_added [of ff batch "t @ ''_'' @ str_nat index @ ''.mp4''"] b
  have added: "output_added ff1" by simp
  obtain r w1 where run: "FFMPEG_run e ff1 w = (r, w1)" by (cases "FFMPEG_run e ff1 w")
  show ?case
  proof (cases r)
    case None
    with Cons.prems b run have "fst (render_batches e t ff1 w1 (Suc index) batches) = Some err"
      by (auto simp add: Let_def split: prod.splits)
    then show ?thesis by (rule Cons.IH)
  next
    case (Some err')
    with Cons.prems b run have "err' = err" by (simp add: Let_def)
    with Some run FFMPEG_run_raises [OF added, of e w err] show ?thesis by simp
  qed
qed

lemma make_video_raises:
  assumes "fst (make_video e g w) = Some err"
  shows "\<exists>rc. err = RuntimeError rc \<and> rc \<noteq> 0"
proof -
  from assms have "fst (render_batches e (title g) (ffmpeg g) w 0
      (group_batches (front_videos g) (back_videos g))) = Some err"
    by (auto simp add: make_video_def Let_def split: if_splits prod.splits option.splits)
  then show ?thesis by (rule render_batches_raises)
qed

lemma make_video_skips:
  "path_exists w (title g @ ''.mp4'') \<Longrightarrow> make_video e g w = (None, g, w)"
  by (simp add: make_video_def DEBUG_def)

lemma ex_group_late_batches:
  "group_batches (front_videos ex_group_late) (back_videos ex_group_late)
     = [[(ex_video ex_file_late Front, ex_video ex_file_b Back)]]"
  by (simp add: ex_group_late_def ex_group_of_def group_batches_def batches_of_def slice_def
        py_range_0_1_4)

lemma ex_env_fails_encoder: "fst (encoder ex_env_fails argv w) = 1"
  by (simp add: ex_env_fails_def ex_env_def ex_encoder_fails_def)

text \<open>
  Claim C6 says that an encoder failure in one group's render does not keep the later
  groups from rendering. With an encoder that exits with 1, the render of the first of
  two groups raises \<open>RuntimeError\<close> at its first chunk; nothing catches it, the second
  group is left as it was and the only process ever run is that chunk render.
\<close>

theorem C6_counterexample:
  "fst (render_all ex_env_fails [ex_group, ex_group_late] ex_world) = Some (RuntimeError 1)
   \<and> tl (fst (snd (render_all ex_env_fails [ex_group, ex_group_late] ex_world))) = [ex_group_late]
   \<and> final_video ex_group_late = None
   \<and> runs (snd (snd (render_all ex_env_fails [ex_group, ex_group_late] ex_world)))
       = [cmd (fst (build_batch (ffmpeg ex_group)
            [(ex_video ex_file_a Front, ex_video ex_file_b Back)] ''01 Jan 2023 10-00-00_0.mp4''))]"
proof -
  have nz: "(1::int) \<noteq> 0" by simp
  from make_video_first_chunk_fails [OF ex_world_absent, of ex_group _ "[]" ex_env_fails 1]
    ex_group_batches ex_env_fails_encoder nz
  have mv: "fst (make_video ex_env_fails ex_group ex_world) = Some (RuntimeError 1)"
    and runs: "runs (snd (snd (make_video ex_env_fails ex_group ex_world)))
      = [cmd (fst (build_batch (ffmpeg ex_group)
            [(ex_video ex_file_a Front, ex_video ex_file_b Back)] ''01 Jan 2023 10-00-00_0.mp4''))]"
    by (simp_all add: ex_group_title ex_world_def)
  from render_all_stops [OF mv, of "[ex_group_late]"] runs show ?thesis
    by (simp add: ex_group_late_def ex_group_of_def)
qed

text \<open>
  Claim C6, amended. Failures are not isolated: when the render of a group raises, which
  it does only with the \<open>RuntimeError\<close> of a chunk render that exited with a non-zero
  code, the loop over the groups ends there. The groups before it have been rendered,
  the groups after it are returned as they were and the world is the one that failing
  render left, so no encoder process is run for them.
\<close>

theorem C6_failure_ends_render_loop:
  assumes "render_all e pre w = (None, pre', w1)"
    and "fst (make_video e v w1) = Some err"
  shows "render_all e (pre @ v # vs) w
       = (Some err, pre' @ fst (snd (make_video e v w1)) # vs, snd (snd (make_video e v w1)))
     \<and> (\<exists>rc. err = RuntimeError rc \<and> rc \<noteq> 0)"
  using render_all_prefix [OF assms] make_video_raises [OF assms(2)] by simp

theorem C6_witness:
  "render_all ex_env_fails [ex_group] ex_world_done = (None, [ex_group], ex_world_done)
   \<and> fst (make_video ex_env_fails ex_group_late ex_world_done) = Some (RuntimeError 1)
   \<and> fst (render_all ex_env_fails ([ex_group] @ ex_group_late # [ex_group5]) ex_world_done)
       = Some (RuntimeError 1)
   \<and> drop 2 (fst (snd (render_all ex_env_fails ([ex_group] @ ex_group_late # [ex_group5])
        ex_world_done))) = [ex_group5]
   \<and> length (runs (snd (snd (render_all ex_env_fails ([ex_group] @ ex_group_late # [ex_group5])
        ex_world_done)))) = 1"
proof -
  have skip: "render_all ex_env_fails [ex_group] ex_world_done = (None, [ex_group], ex_world_done)"
    using make_video_skips [of ex_world_done ex_group ex_env_fails]
    by (simp add: path_exists_def ex_world_done_def ex_group_title)
  have absent: "\<not> path_exists ex_world_done (title ex_group_late @ ''.mp4'')"
    by (simp add: path_exists_def ex_world_done_def ex_group_late_def ex_group_of_def)
  have nz: "(1::int) \<noteq> 0" by simp
  from make_video_first_chunk_fails [OF absent, of _ "[]" ex_env_fails 1]
    ex_group_late_batches ex_env_fails_encoder nz
  have mv: "fst (make_video ex_env_fails ex_group_late ex_world_done) = Some (RuntimeError 1)"
    and runs: "length (runs (snd (snd (make_video ex_env_fails ex_group_late ex_world_done)))) = 1"
    by (simp_all add: ex_world_done_def)
  from C6_failure_ends_render_loop [OF skip mv, of "[ex_group5]"] skip mv runs
  show ?thesis by simp
qed

section \<open>Probing and adding a clip\<close>

lemma get_media_duration_fails:
  "probe_fails e c file \<Longrightarrow>
     \<exists>err. get_media_duration e c file = (Inl err, probe_cmd c file)"
  by (cases "ffprobe e (probe_cmd c file)")
     (auto simp add: probe_fails_def get_media_duration_def PROBE_run_def Let_def
        split: option.splits)

lemma get_media_duration_succeeds:
  "\<not> probe_fails e c file \<Longrightarrow>
     \<exists>d. get_media_duration e c file = (Inr d, PROBE_defaults)"
  by (cases "ffprobe e (probe_cmd c file)")
     (auto simp add: probe_fails_def get_media_duration_def PROBE_run_def Let_def
        split: option.splits)

lemma Video_init_path: "path (fst (Video_init e c file)) = file"
  by (cases "get_media_duration e c file") (simp add: Video_init_def Let_def)

lemma Video_init_duration:
  "duration_seconds (fst (Video_init e c file)) = None \<longleftrightarrow> probe_fails e c file"
proof (cases "probe_fails e c file")
  case True
  from get_media_duration_fails [OF True] obtain err where
    "get_media_duration e c file = (Inl err, probe_cmd c file)" by blast
  with True show ?thesis by (simp add: Video_init_def Let_def)
next
  case False
  from get_media_duration_succeeds [OF False] obtain d where
    "get_media_duration e c file = (Inr d, PROBE_defaults)" by blast
  with False show ?thesis by (simp add: Video_init_def Let_def)
qed

lemma Video_init_cmd:
  "snd (Video_init e c file) = (if probe_fails e c file then probe_cmd c file else PROBE_defaults)"
proof (cases "probe_fails e c file")
  case True
  from get_media_duration_fails [OF True] obtain err where
    "get_media_duration e c file = (Inl err, probe_cmd c file)" by blast
  with True show ?thesis by (simp add: Video_init_def Let_def)
next
  case False
  from get_media_duration_succeeds [OF False] obtain d where
    "get_media_duration e c file = (Inr d, PROBE_defaults)" by blast
  with False show ?thesis by (simp add: Video_init_def Let_def)
qed

lemma add_video_failed:
  assumes "probe_fails e c file"
  shows "add_video e c g file = (g, probe_cmd c file)"
proof -
  obtain v c' where vi: "Video_init e c file = (v, c')" by (cases "Video_init e c file")
  with assms Video_init_duration [of e c "file"] Video_init_cmd [of e c "file"]
  show ?thesis by (simp add: add_video_def)
qed

lemma add_video_probed:
  assumes "\<not> probe_fails e c file"
  shows "add_video e c g file =
     (if view_point (fst (Video_init e c file)) = Front
      then g\<lparr>front_videos := front_videos g @ [fst (Video_init e c file)]\<rparr>
      else g\<lparr>back_videos := back_videos g @ [fst (Video_init e c file)]\<rparr>, PROBE_defaults)"
proof -
  obtain v c' where vi: "Video_init e c file = (v, c')" by (cases "Video_init e c file")
  with assms Video_init_duration [of e c "file"] have "duration_seconds v \<noteq> None" by simp
  moreover from vi assms Video_init_cmd [of e c "file"] have "c' = PROBE_defaults" by simp
  ultimately show ?thesis using vi by (auto simp add: add_video_def)
qed

lemma add_video_times:
  "start_time (fst (add_video e c g file)) = start_time g"
  "end_time (fst (add_video e c g file)) = end_time g"
  by (cases "probe_fails e c file"; simp add: add_video_failed add_video_probed)+

lemma add_video_clips:
  "front_videos (fst (add_video e c g file)) @ back_videos (fst (add_video e c g file))
     = front_videos g @ back_videos g
   \<or> (\<not> probe_fails e c file
      \<and> (front_videos (fst (add_video e c g file)) = front_videos g @ [fst (Video_init e c file)]
           \<and> back_videos (fst (add_video e c g file)) = back_videos g
         \<or> front_videos (fst (add_video e c g file)) = front_videos g
           \<and> back_videos (fst (add_video e c g file)) = back_videos g @ [fst (Video_init e c file)]))"
  by (cases "probe_fails e c file"; simp add: add_video_failed add_video_probed)

lemma VideoGroup_init_single:
  "VideoGroup_init e c t t' [file] =
     ((fst (add_video e c
        \<lparr>ffmpeg = (FFMPEG_init ''ffmpeg'' True)\<lparr>debug := DEBUG\<rparr>, title = [],
         start_time = t, end_time = t', front_videos = [], back_videos = [],
         final_video = None\<rparr> file))\<lparr>title := strftime e t\<rparr>,
      snd (add_video e c
        \<lparr>ffmpeg = (FFMPEG_init ''ffmpeg'' True)\<lparr>debug := DEBUG\<rparr>, title = [],
         start_time = t, end_time = t', front_videos = [], back_videos = [],
         final_video = None\<rparr> file))"
proof -
  obtain g c' where av: "add_video e c
        \<lparr>ffmpeg = (FFMPEG_init ''ffmpeg'' True)\<lparr>debug := DEBUG\<rparr>, title = [],
         start_time = t, end_time = t', front_videos = [], back_videos = [],
         final_video = None\<rparr> file = (g, c')"
    by (cases "add_video e c
        \<lparr>ffmpeg = (FFMPEG_init ''ffmpeg'' True)\<lparr>debug := DEBUG\<rparr>, title = [],
         start_time = t, end_time = t', front_videos = [], back_videos = [],
         final_video = None\<rparr> file")
  from add_video_times(1) [of e c "\<lparr>ffmpeg = (FFMPEG_init ''ffmpeg'' True)\<lparr>debug := DEBUG\<rparr>,
         title = [], start_time = t, end_time = t', front_videos = [], back_videos = [],
         final_video = None\<rparr>" "file"] av
  have "start_time g = t" by simp
  with av show ?thesis by (simp add: VideoGroup_init_def)
qed

section \<open>The scan over the groups\<close>

lemma find_group_none:
  "\<forall>h \<in> set gs. within_window t h = Inr False \<Longrightarrow> find_group e c t file gs = Inr (False, gs, c)"
  by (induction gs) simp_all

lemma find_group_attach:
  assumes "\<forall>h \<in> set pre. within_window t h = Inr False" and "within_window t g = Inr True"
  shows "find_group e c t file (pre @ g # post)
     = Inr (True, pre @ fst (add_video e c (g\<lparr>end_time := t\<rparr>) file) # post,
            snd (add_video e c (g\<lparr>end_time := t\<rparr>) file))"
  using assms
  by (induction pre) (simp_all split: prod.splits)

lemma find_group_overflow:
  "gs \<noteq> [] \<Longrightarrow> t < timedelta_hours 2 \<Longrightarrow> find_group e c t file gs = Inl OverflowError"
  by (cases gs) (simp_all add: within_window_def datetime_sub_def)

lemma within_window_iff:
  "within_window t g = Inr True \<longleftrightarrow> timedelta_hours 2 \<le> t \<and> t - timedelta_hours 2 < end_time g"
  "within_window t g = Inr False \<longleftrightarrow> timedelta_hours 2 \<le> t \<and> \<not> t - timedelta_hours 2 < end_time g"
  by (auto simp add: within_window_def datetime_sub_def)

lemma find_group_shape:
  "find_group e c t file gs = Inr (found, gs', c') \<Longrightarrow>
     length gs' = length gs \<and> map start_time gs' = map start_time gs"
proof (induction gs arbitrary: found gs' c')
  case Nil
  then show ?case by simp
next
  case (Cons g gs)
  show ?case
  proof (cases "within_window t g")
    case (Inl err)
    with Cons.prems show ?thesis by simp
  next
    case (Inr b)
    show ?thesis
    proof (cases b)
      case True
      with Inr Cons.prems have "gs' = fst (add_video e c (g\<lparr>end_time := t\<rparr>) file) # gs"
        by (auto split: prod.splits)
      then show ?thesis by (simp add: add_video_times)
    next
      case False
      with Inr Cons.prems obtain rest where
        "find_group e c t file gs = Inr (found, rest, c')" and "gs' = g # rest"
        by (auto split: sum.splits prod.splits)
      with Cons.IH [of found rest c'] show ?thesis by simp
    qed
  qed
qed

lemma process_file_shape:
  assumes "process_file e (gs, c) file = Inr (gs', c')"
  shows "length gs \<le> length gs' \<and> map start_time (take (length gs) gs') = map start_time gs"
proof -
  from assms obtain t where t: "datetime_from_file_name e file = Inr t"
    by (cases "datetime_from_file_name e file") (simp_all add: process_file_def)
  from assms t obtain found gs1 c1 where fg: "find_group e c t file gs = Inr (found, gs1, c1)"
    by (cases "find_group e c t file gs") (auto simp add: process_file_def)
  from find_group_shape [OF fg] have shape: "length gs1 = length gs" "map start_time gs1 = map start_time gs"
    by simp_all
  show ?thesis
  proof (cases found)
    case True
    with assms t fg have "gs' = gs1" by (simp add: process_file_def)
    with shape show ?thesis by simp
  next
    case False
    with assms t fg have "gs' = gs1 @ [fst (VideoGroup_init e c1 t t [file])]"
      by (auto simp add: process_file_def split: prod.splits)
    with shape show ?thesis by simp
  qed
qed

lemma process_files_shape:
  "process_files e (gs, c) files = Inr (gs', c') \<Longrightarrow>
     length gs \<le> length gs' \<and> map start_time (take (length gs) gs') = map start_time gs"
proof (induction files arbitrary: gs c)
  case Nil
  then show ?case by simp
next
  case (Cons f files)
  from Cons.prems obtain gs1 c1 where pf: "process_file e (gs, c) f = Inr (gs1, c1)"
    and rest: "process_files e (gs1, c1) files = Inr (gs', c')"
    by (cases "process_file e (gs, c) f") auto
  from process_file_shape [OF pf] have 1: "length gs \<le> length gs1"
    "map start_time (take (length gs) gs1) = map start_time gs" by simp_all
  from Cons.IH [OF rest] have 2: "length gs1 \<le> length gs'"
    "map start_time (take (length gs1) gs') = map start_time gs1" by simp_all
  from 1(1) have "map start_time (take (length gs) gs')
      = take (length gs) (map start_time (take (length gs1) gs'))"
    by (simp add: take_map)
  also from 2(2) have "\<dots> = take (length gs) (map start_time gs1)" by simp
  also from 1(2) have "\<dots> = map start_time gs" by (simp add: take_map)
  finally show ?case using 1(1) 2(1) by simp
qed

lemma process_files_append:
  "process_files e st (files @ others) =
     (case process_files e st files of Inl err \<Rightarrow> Inl err | Inr st' \<Rightarrow> process_files e st' others)"
  by (induction files arbitrary: st) (simp_all split: sum.splits)

lemma process_files_raises:
  "process_file e st file = Inl err \<Longrightarrow> process_files e st (file # others) = Inl err"
  by simp

section \<open>The example environment\<close>

lemma ex_sections:
  "take 15 (before_first_dot (path_name ex_file_a)) = ''20230101_100000''"
  "take 15 (before_first_dot (path_name ex_file_b)) = ''20230101_100000''"
  "take 15 (before_first_dot (path_name ex_file_bad)) = ''20230101_103000''"
  "take 15 (before_first_dot (path_name ex_file_late)) = ''20230101_130000''"
  "take 15 (before_first_dot (path_name ex_file_year1)) = ''00010101_010000''"
  "take 15 (before_first_dot (path_name ex_file_noise)) = ''notes''"
  by (simp_all add: path_name_def before_first_dot_def ex_file_a_def ex_file_b_def
        ex_file_bad_def ex_file_late_def ex_file_year1_def ex_file_noise_def)

lemma ex_datetimes:
  "datetime_from_file_name ex_env ex_file_a = Inr 63808164000"
  "datetime_from_file_name ex_env ex_file_b = Inr 63808164000"
  "datetime_from_file_name ex_env ex_file_bad = Inr 63808165800"
  "datetime_from_file_name ex_env ex_file_late = Inr 63808174800"
  "datetime_from_file_name ex_env ex_file_year1 = Inr 3600"
  "datetime_from_file_name ex_env ex_file_noise = Inl ValueError"
  by (simp_all add: datetime_from_file_name_def ex_sections ex_env_def ex_strptime_def)

lemma ex_probe_bad: "probe_fails ex_env c ex_file_bad"
  by (simp add: probe_fails_def probe_cmd_def ex_env_def ex_ffprobe_def)

lemma ex_probe_good:
  "file \<noteq> ex_file_bad \<Longrightarrow> \<not> probe_fails ex_env c file"
  by (simp add: probe_fails_def probe_cmd_def ex_env_def ex_ffprobe_def ex_to_seconds_def)

lemma ex_files_distinct:
  "ex_file_a \<noteq> ex_file_bad" "ex_file_b \<noteq> ex_file_bad" "ex_file_late \<noteq> ex_file_bad"
  "ex_file_year1 \<noteq> ex_file_bad"
  by (simp_all add: ex_file_a_def ex_file_b_def ex_file_bad_def ex_file_late_def ex_file_year1_def)

lemma ex_view_points:
  "view_point (fst (Video_init ex_env c ex_file_a)) = Front"
  "view_point (fst (Video_init ex_env c ex_file_late)) = Front"
  "view_point (fst (Video_init ex_env c ex_file_b)) = Back"
  by (cases "get_media_duration ex_env c ex_file_a"; cases "get_media_duration ex_env c ex_file_late";
      cases "get_media_duration ex_env c ex_file_b";
      simp add: Video_init_def Let_def path_name_def before_first_dot_def
        ex_file_a_def ex_file_b_def ex_file_late_def)+

section \<open>One file of the scan\<close>

lemma add_video_result:
  "add_video e c g file =
     (if probe_fails e c file then g
      else if view_point (fst (Video_init e c file)) = Front
      then g\<lparr>front_videos := front_videos g @ [fst (Video_init e c file)]\<rparr>
      else g\<lparr>back_videos := back_videos g @ [fst (Video_init e c file)]\<rparr>,
      if probe_fails e c file then probe_cmd c file else PROBE_defaults)"
  by (cases "probe_fails e c file") (simp_all add: add_video_failed add_video_probed)

lemma new_group_result:
  "VideoGroup_init e c t t [file] =
     (\<lparr>ffmpeg = (FFMPEG_init ''ffmpeg'' True)\<lparr>debug := DEBUG\<rparr>, title = strftime e t,
       start_time = t, end_time = t,
       front_videos = (if \<not> probe_fails e c file \<and> view_point (fst (Video_init e c file)) = Front
                       then [fst (Video_init e c file)] else []),
       back_videos = (if \<not> probe_fails e c file \<and> view_point (fst (Video_init e c file)) \<noteq> Front
                      then [fst (Video_init e c file)] else []),
       final_video = None\<rparr>,
      if probe_fails e c file then probe_cmd c file else PROBE_defaults)"
  by (simp add: VideoGroup_init_single add_video_result)

lemma process_file_attach:
  assumes "datetime_from_file_name e file = Inr t"
    and "\<forall>h \<in> set pre. within_window t h = Inr False"
    and "within_window t g = Inr True"
  shows "process_file e (pre @ g # post, c) file
     = Inr (pre @ fst (add_video e c (g\<lparr>end_time := t\<rparr>) file) # post,
            snd (add_video e c (g\<lparr>end_time := t\<rparr>) file))"
  using assms(1) find_group_attach [OF assms(2,3), of e c "file" post]
  by (simp add: process_file_def)

lemma process_file_new:
  assumes "datetime_from_file_name e file = Inr t"
    and "\<forall>h \<in> set gs. within_window t h = Inr False"
  shows "process_file e (gs, c) file
     = Inr (gs @ [fst (VideoGroup_init e c t t [file])], snd (VideoGroup_init e c t t [file]))"
  using assms(1) find_group_none [OF assms(2), of e c "file"]
  by (simp add: process_file_def split: prod.splits)

lemma process_file_unparseable:
  "strptime e (take 15 (before_first_dot (path_name file))) = None \<Longrightarrow>
     process_file e st file = Inl ValueError"
  by (simp add: process_file_def datetime_from_file_name_def)

lemma process_files_unparseable:
  assumes "file \<in> set files"
    and "strptime e (take 15 (before_first_dot (path_name file))) = None"
  shows "\<exists>err. process_files e st files = Inl err"
  using assms(1)
proof (induction files arbitrary: st)
  case Nil
  then show ?case by simp
next
  case (Cons f files)
  show ?case
  proof (cases "process_file e st f")
    case (Inl err)
    then show ?thesis by simp
  next
    case (Inr st')
    with process_file_unparseable [OF assms(2), of st] have "f \<noteq> file" by auto
    with Cons.prems have "file \<in> set files" by simp
    from Cons.IH [OF this, of st'] Inr show ?thesis by simp
  qed
qed

text \<open>
  Claim C7. When the first 15 characters before the first \<open>.\<close> of a file's name do not
  parse, \<open>strptime\<close> raises and nothing catches it: a list that holds such a file gives
  no list of groups but an exception, and when the files before it went through, that
  exception is the ValueError of this file, whatever files follow.
\<close>

theorem C7_unparseable_name_aborts_scan:
  assumes "file \<in> set files"
    and "strptime e (take 15 (before_first_dot (path_name file))) = None"
  shows "(\<exists>err. get_videos e c files = Inl err)
     \<and> (get_videos e c pre = Inr st \<longrightarrow> get_videos e c (pre @ file # post) = Inl ValueError)"
  using process_files_unparseable [OF assms, of "([], c)"]
    process_file_unparseable [OF assms(2), of st]
  by (simp add: get_videos_def process_files_append)

lemma ex_scan_first:
  "get_videos ex_env c [ex_file_a]
     = Inr ([fst (VideoGroup_init ex_env c 63808164000 63808164000 [ex_file_a])],
            snd (VideoGroup_init ex_env c 63808164000 63808164000 [ex_file_a]))"
  using process_file_new [of ex_env ex_file_a 63808164000 "[]" c]
  by (simp add: get_videos_def ex_datetimes)

theorem C7_witness:
  "ex_file_noise \<in> set [ex_file_a, ex_file_noise, ex_file_late]
   \<and> strptime ex_env (take 15 (before_first_dot (path_name ex_file_noise))) = None
   \<and> get_videos ex_env PROBE_defaults ([ex_file_a] @ ex_file_noise # [ex_file_late]) = Inl ValueError"
proof -
  have unparsed: "strptime ex_env (take 15 (before_first_dot (path_name ex_file_noise))) = None"
    by (simp add: ex_sections ex_env_def ex_strptime_def)
  have listed: "ex_file_noise \<in> set [ex_file_a, ex_file_noise, ex_file_late]" by simp
  from C7_unparseable_name_aborts_scan [OF listed unparsed, of PROBE_defaults "[ex_file_a]" _ "[ex_file_late]"]
    ex_scan_first [of PROBE_defaults] unparsed
  show ?thesis by simp
qed

lemma ex_group_fields:
  "end_time ex_group = 63808164000" "start_time ex_group = 63808164000"
  "clip_paths ex_group = [ex_file_a, ex_file_b]"
  "end_time ex_group_late = 63808174800" "start_time ex_group_late = 63808174800"
  "clip_paths ex_group_late = [ex_file_late, ex_file_b]"
  by (simp_all add: ex_group_def ex_group_late_def ex_group_of_def clip_paths_def ex_video_def)

lemma ex_group_paths:
  "map path (front_videos ex_group) = [ex_file_a]" "map path (back_videos ex_group) = [ex_file_b]"
  "map path (front_videos ex_group_late) = [ex_file_late]"
  "map path (back_videos ex_group_late) = [ex_file_b]"
  by (simp_all add: ex_group_def ex_group_late_def ex_group_of_def ex_video_def)

lemma ex_windows:
  "within_window 63808174800 ex_group = Inr False"
  "within_window 63808174800 ex_group_late = Inr True"
  "within_window 63808165800 ex_group = Inr True"
  by (simp_all add: within_window_def datetime_sub_def timedelta_hours_def ex_group_fields)

text \<open>
  Claim C1 says that every file with a parseable timestamp is attached to the first group
  that passes the test or else starts a group that contains it. Three files show
  otherwise. The file of 10:30:00, whose probe fails, starts a group that contains no
  clip when no group exists. The same file, scanned when the example group (ending at
  10:00:00) exists, passes that group's test and moves its end to 10:30:00, but is
  appended to neither its front nor its back clips. The file of 0001-01-01 01:00:00,
  scanned when a group exists, joins nothing and starts nothing: subtracting two hours
  from its timestamp raises OverflowError and the scan ends.
\<close>

theorem C1_counterexample:
  "map clip_paths (result_groups (get_videos ex_env PROBE_defaults [ex_file_bad])) = [[]]
   \<and> within_window 63808165800 ex_group = Inr True
   \<and> map end_time (result_groups
        (process_file ex_env ([ex_group], PROBE_defaults) ex_file_bad)) = [63808165800]
   \<and> map clip_paths (result_groups
        (process_file ex_env ([ex_group], PROBE_defaults) ex_file_bad)) = [[ex_file_a, ex_file_b]]
   \<and> get_videos ex_env PROBE_defaults [ex_file_a, ex_file_year1] = Inl OverflowError"
proof -
  from process_file_new [of ex_env ex_file_bad 63808165800 "[]" PROBE_defaults]
  have "map clip_paths (result_groups (get_videos ex_env PROBE_defaults [ex_file_bad])) = [[]]"
    by (simp add: get_videos_def ex_datetimes new_group_result ex_probe_bad result_groups_def
          clip_paths_def)
  moreover
  from process_file_attach [of ex_env ex_file_bad 63808165800 "[]" ex_group "[]" PROBE_defaults]
  have "process_file ex_env ([ex_group], PROBE_defaults) ex_file_bad
      = Inr ([ex_group\<lparr>end_time := 63808165800\<rparr>], probe_cmd PROBE_defaults ex_file_bad)"
    by (simp add: ex_datetimes ex_windows add_video_failed [OF ex_probe_bad])
  then have "map end_time (result_groups
        (process_file ex_env ([ex_group], PROBE_defaults) ex_file_bad)) = [63808165800]"
    and "map clip_paths (result_groups
        (process_file ex_env ([ex_group], PROBE_defaults) ex_file_bad)) = [[ex_file_a, ex_file_b]]"
    by (simp_all add: result_groups_def clip_paths_def ex_group_paths)
  moreover have "get_videos ex_env PROBE_defaults [ex_file_a, ex_file_year1] = Inl OverflowError"
  proof -
    from ex_scan_first [of PROBE_defaults]
    have first: "process_file ex_env ([], PROBE_defaults) ex_file_a
      = Inr ([fst (VideoGroup_init ex_env PROBE_defaults 63808164000 63808164000 [ex_file_a])],
             snd (VideoGroup_init ex_env PROBE_defaults 63808164000 63808164000 [ex_file_a]))"
      by (simp add: get_videos_def split: sum.splits)
    have "find_group ex_env c 3600 ex_file_year1 [g] = Inl OverflowError" for c g
      by (rule find_group_overflow) (simp_all add: timedelta_hours_def)
    then have "process_file ex_env ([g], c) ex_file_year1 = Inl OverflowError" for c g
      by (simp add: process_file_def ex_datetimes)
    with first show ?thesis by (simp add: get_videos_def)
  qed
  ultimately show ?thesis by (simp add: ex_windows)
qed

text \<open>
  Claim C1, amended. A file whose timestamp parses is processed after the files before
  it. When the test \<open>file_datetime - 2h < end_time\<close> is false for the groups before \<open>g\<close>
  and true for \<open>g\<close>, the file is taken by \<open>g\<close> and by no other group: the end of \<open>g\<close>
  becomes the file's timestamp; if the probe of the file succeeds, its clip is appended
  to the front or the back clips of \<open>g\<close>; if the probe fails, the end of \<open>g\<close> is all that
  changes and the file is appended to no clips. When the test is false for every
  group, a new group is appended, its start and end the file's timestamp, its only clip
  that of the file if the probe succeeds, and no clip if it fails. The test is true
  when the timestamp is at least two hours after \<open>datetime.min\<close> and less than two
  hours after the end of the group; when the subtraction leaves the range of
  \<open>datetime\<close> the test has no value and neither case applies.
\<close>

theorem C1_file_joins_first_open_group:
  assumes "datetime_from_file_name e file = Inr t"
  shows
    "((\<forall>h \<in> set pre. within_window t h = Inr False) \<and> within_window t g = Inr True \<longrightarrow>
        process_file e (pre @ g # post, c) file
          = Inr (pre @
                 (if probe_fails e c file then g\<lparr>end_time := t\<rparr>
                  else if view_point (fst (Video_init e c file)) = Front
                  then g\<lparr>end_time := t,
                         front_videos := front_videos g @ [fst (Video_init e c file)]\<rparr>
                  else g\<lparr>end_time := t,
                         back_videos := back_videos g @ [fst (Video_init e c file)]\<rparr>) # post,
                 if probe_fails e c file then probe_cmd c file else PROBE_defaults))
     \<and> ((\<forall>h \<in> set gs. within_window t h = Inr False) \<longrightarrow>
        process_file e (gs, c) file
          = Inr (gs @
                 [\<lparr>ffmpeg = (FFMPEG_init ''ffmpeg'' True)\<lparr>debug := DEBUG\<rparr>, title = strftime e t,
                   start_time = t, end_time = t,
                   front_videos =
                     (if \<not> probe_fails e c file \<and> view_point (fst (Video_init e c file)) = Front
                      then [fst (Video_init e c file)] else []),
                   back_videos =
                     (if \<not> probe_fails e c file \<and> view_point (fst (Video_init e c file)) \<noteq> Front
                      then [fst (Video_init e c file)] else []),
                   final_video = None\<rparr>],
                 if probe_fails e c file then probe_cmd c file else PROBE_defaults))
     \<and> path (fst (Video_init e c file)) = file
     \<and> (within_window t g = Inr True
          \<longleftrightarrow> timedelta_hours 2 \<le> t \<and> t - timedelta_hours 2 < end_time g)
     \<and> get_videos e c0 (files @ [file])
          = (case get_videos e c0 files of Inl err \<Rightarrow> Inl err | Inr st \<Rightarrow> process_file e st file)"
proof -
  have attach: "process_file e (pre @ g # post, c) file
          = Inr (pre @
                 (if probe_fails e c file then g\<lparr>end_time := t\<rparr>
                  else if view_point (fst (Video_init e c file)) = Front
                  then g\<lparr>end_time := t,
                         front_videos := front_videos g @ [fst (Video_init e c file)]\<rparr>
                  else g\<lparr>end_time := t,
                         back_videos := back_videos g @ [fst (Video_init e c file)]\<rparr>) # post,
                 if probe_fails e c file then probe_cmd c file else PROBE_defaults)"
    if "\<forall>h \<in> set pre. within_window t h = Inr False" and "within_window t g = Inr True"
    using process_file_attach [OF assms that, of post c]
    by (simp add: add_video_result)
  have new: "process_file e (gs, c) file
          = Inr (gs @
                 [\<lparr>ffmpeg = (FFMPEG_init ''ffmpeg'' True)\<lparr>debug := DEBUG\<rparr>, title = strftime e t,
                   start_time = t, end_time = t,
                   front_videos =
                     (if \<not> probe_fails e c file \<and> view_point (fst (Video_init e c file)) = Front
                      then [fst (Video_init e c file)] else []),
                   back_videos =
                     (if \<not> probe_fails e c file \<and> view_point (fst (Video_init e c file)) \<noteq> Front
                      then [fst (Video_init e c file)] else []),
                   final_video = None\<rparr>],
                 if probe_fails e c file then probe_cmd c file else PROBE_defaults)"
    if "\<forall>h \<in> set gs. within_window t h = Inr False"
    using process_file_new [OF assms that, of c]
    by (simp add: new_group_result)
  have order: "get_videos e c0 (files @ [file])
          = (case get_videos e c0 files of Inl err \<Rightarrow> Inl err | Inr st \<Rightarrow> process_file e st file)"
    by (simp add: get_videos_def process_files_append split: sum.splits)
  from attach new order Video_init_path [of e c "file"] within_window_iff(1) [of t g]
  show ?thesis by blast
qed

theorem C1_witness:
  "datetime_from_file_name ex_env ex_file_late = Inr 63808174800
   \<and> within_window 63808174800 ex_group = Inr False
   \<and> within_window 63808174800 ex_group_late = Inr True
   \<and> map clip_paths (result_groups
        (process_file ex_env ([ex_group, ex_group_late], PROBE_defaults) ex_file_late))
       = [[ex_file_a, ex_file_b], [ex_file_late, ex_file_late, ex_file_b]]
   \<and> map end_time (result_groups
        (process_file ex_env ([ex_group, ex_group_late], PROBE_defaults) ex_file_late))
       = [63808164000, 63808174800]
   \<and> map clip_paths (result_groups
        (process_file ex_env ([ex_group], PROBE_defaults) ex_file_late))
       = [[ex_file_a, ex_file_b], [ex_file_late]]
   \<and> map start_time (result_groups
        (process_file ex_env ([ex_group], PROBE_defaults) ex_file_late))
       = [63808164000, 63808174800]
   \<and> map end_time (result_groups
        (process_file ex_env ([ex_group], PROBE_defaults) ex_file_late))
       = [63808164000, 63808174800]"
proof -
  note inst = C1_file_joins_first_open_group [OF ex_datetimes(4)]
  have good: "\<not> probe_fails ex_env PROBE_defaults ex_file_late"
    by (rule ex_probe_good) (rule ex_files_distinct)
  from inst [of "[ex_group]" ex_group_late "[]" PROBE_defaults "[]" PROBE_defaults "[]"]
  have attach: "process_file ex_env ([ex_group, ex_group_late], PROBE_defaults) ex_file_late
      = Inr ([ex_group, ex_group_late\<lparr>end_time := 63808174800,
                front_videos := front_videos ex_group_late
                  @ [fst (Video_init ex_env PROBE_defaults ex_file_late)]\<rparr>], PROBE_defaults)"
    by (simp add: ex_windows good ex_view_points)
  from inst [of "[]" ex_group "[]" PROBE_defaults "[ex_group]" PROBE_defaults "[]"]
  have new: "map clip_paths (result_groups
        (process_file ex_env ([ex_group], PROBE_defaults) ex_file_late))
       = [[ex_file_a, ex_file_b], [ex_file_late]]"
    "map start_time (result_groups
        (process_file ex_env ([ex_group], PROBE_defaults) ex_file_late))
       = [63808164000, 63808174800]"
    "map end_time (result_groups
        (process_file ex_env ([ex_group], PROBE_defaults) ex_file_late))
       = [63808164000, 63808174800]"
    by (simp_all add: ex_windows good ex_view_points result_groups_def clip_paths_def
          ex_group_fields(1,2,4,5) ex_group_paths Video_init_path)
  from attach new show ?thesis
    by (simp add: ex_datetimes ex_windows result_groups_def clip_paths_def
          ex_group_fields(1,2,4,5) ex_group_paths Video_init_path)
qed

lemma ex_next:
  "datetime_from_file_name ex_env ex_file_next = Inr 63808167600"
  "ex_file_next \<noteq> ex_file_bad"
  "view_point (fst (Video_init ex_env c ex_file_next)) = Front"
  by (cases "get_media_duration ex_env c ex_file_next";
      simp add: datetime_from_file_name_def path_name_def before_first_dot_def ex_file_next_def
        ex_file_bad_def ex_env_def ex_strptime_def Video_init_def Let_def)+

lemma ex_group_early_fields:
  "end_time ex_group_early = 63808153200" "start_time ex_group_early = 63808153200"
  "front_videos ex_group_early = []" "back_videos ex_group_early = []"
  by (simp_all add: ex_group_early_def ex_group_of_def)

lemma find_group_unprobed:
  assumes "probe_fails e c file"
  shows "find_group e c t file gs = Inr (found, gs', c') \<Longrightarrow>
     map front_videos gs' = map front_videos gs \<and> map back_videos gs' = map back_videos gs"
proof (induction gs arbitrary: found gs' c')
  case Nil
  then show ?case by simp
next
  case (Cons g gs)
  show ?case
  proof (cases "within_window t g")
    case (Inl err)
    with Cons.prems show ?thesis by simp
  next
    case (Inr b)
    show ?thesis
    proof (cases b)
      case True
      with Inr Cons.prems have "gs' = fst (add_video e c (g\<lparr>end_time := t\<rparr>) file) # gs"
        by (auto split: prod.splits)
      then show ?thesis by (simp add: add_video_failed [OF assms])
    next
      case False
      with Inr Cons.prems obtain rest where
        "find_group e c t file gs = Inr (found, rest, c')" and "gs' = g # rest"
        by (auto split: sum.splits prod.splits)
      with Cons.IH [of found rest c'] show ?thesis by simp
    qed
  qed
qed


lemma find_group_not_found:
  "find_group e c t file gs = Inr (False, gs', c') \<Longrightarrow> gs' = gs \<and> c' = c"
proof (induction gs arbitrary: gs')
  case Nil
  then show ?case by simp
next
  case (Cons g gs)
  show ?case
  proof (cases "within_window t g")
    case (Inl err)
    with Cons.prems show ?thesis by simp
  next
    case (Inr b)
    show ?thesis
    proof (cases b)
      case True
      with Inr Cons.prems show ?thesis by (auto split: prod.splits)
    next
      case False
      with Inr Cons.prems obtain rest where
        "find_group e c t file gs = Inr (False, rest, c')" and "gs' = g # rest"
        by (auto split: sum.splits prod.splits)
      with Cons.IH [of rest] show ?thesis by simp
    qed
  qed
qed

lemma process_file_unprobed:
  assumes "probe_fails e c file" and "process_file e (gs, c) file = Inr (gs', c')"
  shows "map front_videos (take (length gs) gs') = map front_videos gs
     \<and> map back_videos (take (length gs) gs') = map back_videos gs
     \<and> (\<forall>g' \<in> set (drop (length gs) gs'). front_videos g' = [] \<and> back_videos g' = [])"
proof -
  from assms(2) obtain t where t: "datetime_from_file_name e file = Inr t"
    by (cases "datetime_from_file_name e file") (simp_all add: process_file_def)
  from assms(2) t obtain found gs1 c1 where fg: "find_group e c t file gs = Inr (found, gs1, c1)"
    by (cases "find_group e c t file gs") (auto simp add: process_file_def)
  from find_group_unprobed [OF assms(1) fg] find_group_shape [OF fg]
  have same: "map front_videos gs1 = map front_videos gs" "map back_videos gs1 = map back_videos gs"
    "length gs1 = length gs" by simp_all
  show ?thesis
  proof (cases found)
    case True
    with assms(2) t fg have "gs' = gs1" by (simp add: process_file_def)
    with same show ?thesis by simp
  next
    case False
    with fg find_group_not_found [of e c t "file" gs gs1 c1] have "gs1 = gs" "c1 = c" by simp_all
    with False assms(2) t fg have "gs' = gs @ [fst (VideoGroup_init e c t t [file])]"
      by (auto simp add: process_file_def split: prod.splits)
    with assms(1) show ?thesis by (simp add: new_group_result)
  qed
qed

text \<open>
  Claim C3 says that a file whose probe fails leaves the end timestamp of every group as
  it was. The example group ends at 10:00:00; the file of 10:30:00, whose probe fails,
  passes its test, and the assignment \<open>video.end_time = file_datetime\<close> comes before
  \<open>add_video\<close> probes the file: the group then ends at 10:30:00, with the clips it had.
\<close>

theorem C3_counterexample:
  "end_time ex_group = 63808164000
   \<and> probe_fails ex_env PROBE_defaults ex_file_bad
   \<and> map end_time (result_groups
        (process_file ex_env ([ex_group], PROBE_defaults) ex_file_bad)) = [63808165800]
   \<and> map clip_paths (result_groups
        (process_file ex_env ([ex_group], PROBE_defaults) ex_file_bad)) = [[ex_file_a, ex_file_b]]"
proof -
  from process_file_attach [of ex_env ex_file_bad 63808165800 "[]" ex_group "[]" PROBE_defaults]
  have "process_file ex_env ([ex_group], PROBE_defaults) ex_file_bad
      = Inr ([ex_group\<lparr>end_time := 63808165800\<rparr>], probe_cmd PROBE_defaults ex_file_bad)"
    by (simp add: ex_datetimes ex_windows add_video_failed [OF ex_probe_bad])
  then show ?thesis
    by (simp add: result_groups_def clip_paths_def ex_group_fields(1) ex_group_paths ex_probe_bad)
qed

text \<open>
  Claim C3, amended. A file whose probe fails is appended to no group's front or back
  clips: the groups that existed keep their clips and a group it starts has none. It
  does move a window: the first group that passes the test gets the file's timestamp as
  its end. Every other group, and every group when none passes the test, keeps its end.
  The \<open>cmd\<close> of the \<open>PROBE\<close> keeps the arguments of the failed probe.
\<close>

theorem C3_unprobed_file_moves_one_window:
  assumes "probe_fails e c file" and "datetime_from_file_name e file = Inr t"
  shows
    "((\<forall>h \<in> set pre. within_window t h = Inr False) \<and> within_window t g = Inr True \<longrightarrow>
        process_file e (pre @ g # post, c) file
          = Inr (pre @ g\<lparr>end_time := t\<rparr> # post, probe_cmd c file))
     \<and> ((\<forall>h \<in> set gs. within_window t h = Inr False) \<longrightarrow>
        take (length gs) (result_groups (process_file e (gs, c) file)) = gs)
     \<and> (process_file e (gs, c) file = Inr (gs', c') \<longrightarrow>
        map front_videos (take (length gs) gs') = map front_videos gs
        \<and> map back_videos (take (length gs) gs') = map back_videos gs
        \<and> (\<forall>g' \<in> set (drop (length gs) gs'). front_videos g' = [] \<and> back_videos g' = []))"
proof -
  have attach: "process_file e (pre @ g # post, c) file
          = Inr (pre @ g\<lparr>end_time := t\<rparr> # post, probe_cmd c file)"
    if "\<forall>h \<in> set pre. within_window t h = Inr False" and "within_window t g = Inr True"
    using process_file_attach [OF assms(2) that, of post c]
    by (simp add: add_video_failed [OF assms(1)])
  have new: "take (length gs) (result_groups (process_file e (gs, c) file)) = gs"
    if "\<forall>h \<in> set gs. within_window t h = Inr False"
    using process_file_new [OF assms(2) that, of c] by (simp add: result_groups_def)
  from attach new process_file_unprobed [OF assms(1), of gs gs' c'] show ?thesis by blast
qed

theorem C3_witness:
  "probe_fails ex_env PROBE_defaults ex_file_bad
   \<and> datetime_from_file_name ex_env ex_file_bad = Inr 63808165800
   \<and> within_window 63808165800 ex_group_early = Inr False
   \<and> within_window 63808165800 ex_group = Inr True
   \<and> process_file ex_env ([ex_group_early, ex_group, ex_group_late], PROBE_defaults) ex_file_bad
       = Inr ([ex_group_early, ex_group\<lparr>end_time := 63808165800\<rparr>, ex_group_late],
              probe_cmd PROBE_defaults ex_file_bad)
   \<and> take 1 (result_groups (process_file ex_env ([ex_group_early], PROBE_defaults) ex_file_bad))
       = [ex_group_early]"
proof -
  have early: "within_window 63808165800 ex_group_early = Inr False"
    by (simp add: within_window_def datetime_sub_def timedelta_hours_def ex_group_early_fields)
  from C3_unprobed_file_moves_one_window [OF ex_probe_bad [of PROBE_defaults] ex_datetimes(3),
      where pre = "[ex_group_early]" and g = ex_group and post = "[ex_group_late]"
        and gs = "[ex_group_early]"]
    early ex_windows(3) ex_probe_bad ex_datetimes(3)
  show ?thesis by simp
qed

text \<open>
  Claim C9. When the probe of a file fails and the test is false for every group, the
  scan still appends a group: start and end the file's timestamp, no front and no back
  clips. The group stays: whatever files follow, a scan that returns has a group with
  that start at that position. And it takes later files: a file whose timestamp is less
  than two hours after its end, and that no earlier group takes, joins it, the end of the
  group moves to that file's timestamp and the file's clip is added if its probe succeeds.
\<close>

theorem C9_unprobed_file_starts_empty_group:
  assumes "datetime_from_file_name e file = Inr t"
    and "probe_fails e c file"
    and "\<forall>h \<in> set gs. within_window t h = Inr False"
  shows
    "process_file e (gs, c) file
       = Inr (gs @ [\<lparr>ffmpeg = (FFMPEG_init ''ffmpeg'' True)\<lparr>debug := DEBUG\<rparr>, title = strftime e t,
                     start_time = t, end_time = t, front_videos = [], back_videos = [],
                     final_video = None\<rparr>], probe_cmd c file)
     \<and> (process_files e
          (gs @ [\<lparr>ffmpeg = (FFMPEG_init ''ffmpeg'' True)\<lparr>debug := DEBUG\<rparr>, title = strftime e t,
                   start_time = t, end_time = t, front_videos = [], back_videos = [],
                   final_video = None\<rparr>], probe_cmd c file) files = Inr (gs', c')
          \<longrightarrow> length gs < length gs' \<and> start_time (gs' ! length gs) = t)
     \<and> (datetime_from_file_name e file2 = Inr t2
          \<and> (\<forall>h \<in> set gs. within_window t2 h = Inr False)
          \<and> timedelta_hours 2 \<le> t2 \<and> t2 - timedelta_hours 2 < t
          \<longrightarrow> process_file e
                (gs @ [\<lparr>ffmpeg = (FFMPEG_init ''ffmpeg'' True)\<lparr>debug := DEBUG\<rparr>,
                         title = strftime e t, start_time = t, end_time = t, front_videos = [],
                         back_videos = [], final_video = None\<rparr>], c2) file2
              = Inr (gs @
                 [if probe_fails e c2 file2
                  then \<lparr>ffmpeg = (FFMPEG_init ''ffmpeg'' True)\<lparr>debug := DEBUG\<rparr>,
                         title = strftime e t, start_time = t, end_time = t2, front_videos = [],
                         back_videos = [], final_video = None\<rparr>
                  else if view_point (fst (Video_init e c2 file2)) = Front
                  then \<lparr>ffmpeg = (FFMPEG_init ''ffmpeg'' True)\<lparr>debug := DEBUG\<rparr>,
                         title = strftime e t, start_time = t, end_time = t2,
                         front_videos = [fst (Video_init e c2 file2)],
                         back_videos = [], final_video = None\<rparr>
                  else \<lparr>ffmpeg = (FFMPEG_init ''ffmpeg'' True)\<lparr>debug := DEBUG\<rparr>,
                         title = strftime e t, start_time = t, end_time = t2, front_videos = [],
                         back_videos = [fst (Video_init e c2 file2)], final_video = None\<rparr>],
                 if probe_fails e c2 file2 then probe_cmd c2 file2 else PROBE_defaults))"
proof -
  let ?E = "\<lparr>ffmpeg = (FFMPEG_init ''ffmpeg'' True)\<lparr>debug := DEBUG\<rparr>, title = strftime e t,
             start_time = t, end_time = t, front_videos = [], back_videos = [],
             final_video = None\<rparr>"
  have created: "process_file e (gs, c) file = Inr (gs @ [?E], probe_cmd c file)"
    using process_file_new [OF assms(1,3), of c] assms(2) by (simp add: new_group_result)
  have stays: "length gs < length gs' \<and> start_time (gs' ! length gs) = t"
    if "process_files e (gs @ [?E], probe_cmd c file) files = Inr (gs', c')"
  proof -
    from process_files_shape [OF that]
    have len: "length gs < length gs'"
      and starts: "map start_time (take (Suc (length gs)) gs') = map start_time gs @ [t]"
      by simp_all
    from starts have "map start_time (take (Suc (length gs)) gs') ! length gs = t"
      by (simp add: nth_append)
    with len show ?thesis by simp
  qed
  have takes: "process_file e (gs @ [?E], c2) file2
      = Inr (gs @ [fst (add_video e c2 (?E\<lparr>end_time := t2\<rparr>) file2)],
             snd (add_video e c2 (?E\<lparr>end_time := t2\<rparr>) file2))"
    if "datetime_from_file_name e file2 = Inr t2"
      and "\<forall>h \<in> set gs. within_window t2 h = Inr False"
      and "timedelta_hours 2 \<le> t2" and "t2 - timedelta_hours 2 < t"
  proof -
    from that(3,4) have "within_window t2 ?E = Inr True"
      by (simp add: within_window_iff)
    from process_file_attach [OF that(1,2) this, of "[]" c2] show ?thesis by simp
  qed
  from created stays takes show ?thesis
    by (simp add: add_video_result)
qed


theorem C9_witness:
  "datetime_from_file_name ex_env ex_file_bad = Inr 63808165800
   \<and> probe_fails ex_env PROBE_defaults ex_file_bad
   \<and> within_window 63808165800 ex_group_early = Inr False
   \<and> map start_time (result_groups
        (process_file ex_env ([ex_group_early], PROBE_defaults) ex_file_bad))
       = [63808153200, 63808165800]
   \<and> map clip_paths (result_groups
        (process_file ex_env ([ex_group_early], PROBE_defaults) ex_file_bad)) = [[], []]
   \<and> map start_time (result_groups
        (process_files ex_env ([ex_group_early], PROBE_defaults) [ex_file_bad, ex_file_next]))
       = [63808153200, 63808165800]
   \<and> map end_time (result_groups
        (process_files ex_env ([ex_group_early], PROBE_defaults) [ex_file_bad, ex_file_next]))
       = [63808153200, 63808167600]
   \<and> map clip_paths (result_groups
        (process_files ex_env ([ex_group_early], PROBE_defaults) [ex_file_bad, ex_file_next]))
       = [[], [ex_file_next]]"
proof -
  have early: "within_window 63808165800 ex_group_early = Inr False"
    "within_window 63808167600 ex_group_early = Inr False"
    by (simp_all add: within_window_def datetime_sub_def timedelta_hours_def ex_group_early_fields)
  have good: "\<not> probe_fails ex_env (probe_cmd PROBE_defaults ex_file_bad) ex_file_next"
    by (rule ex_probe_good) (rule ex_next)
  note inst = C9_unprobed_file_starts_empty_group [OF ex_datetimes(3) ex_probe_bad [of PROBE_defaults],
      where gs = "[ex_group_early]" and ?file2.0 = ex_file_next and ?t2.0 = 63808167600
        and ?c2.0 = "probe_cmd PROBE_defaults ex_file_bad"]
  from inst early ex_next(1) good
  have step1: "process_file ex_env ([ex_group_early], PROBE_defaults) ex_file_bad
       = Inr ([ex_group_early,
               \<lparr>ffmpeg = (FFMPEG_init ''ffmpeg'' True)\<lparr>debug := DEBUG\<rparr>,
                 title = strftime ex_env 63808165800, start_time = 63808165800,
                 end_time = 63808165800, front_videos = [], back_videos = [],
                 final_video = None\<rparr>], probe_cmd PROBE_defaults ex_file_bad)"
    and step2: "process_file ex_env ([ex_group_early,
               \<lparr>ffmpeg = (FFMPEG_init ''ffmpeg'' True)\<lparr>debug := DEBUG\<rparr>,
                 title = strftime ex_env 63808165800, start_time = 63808165800,
                 end_time = 63808165800, front_videos = [], back_videos = [],
                 final_video = None\<rparr>], probe_cmd PROBE_defaults ex_file_bad) ex_file_next
       = Inr ([ex_group_early,
               \<lparr>ffmpeg = (FFMPEG_init ''ffmpeg'' True)\<lparr>debug := DEBUG\<rparr>,
                 title = strftime ex_env 63808165800, start_time = 63808165800,
                 end_time = 63808167600,
                 front_videos = [fst (Video_init ex_env (probe_cmd PROBE_defaults ex_file_bad)
                                   ex_file_next)],
                 back_videos = [], final_video = None\<rparr>], PROBE_defaults)"
    by (simp_all add: timedelta_hours_def ex_next(3))
  from step1 step2 show ?thesis
    by (simp add: ex_datetimes ex_probe_bad early result_groups_def clip_paths_def
          ex_group_early_fields Video_init_path)
qed

section \<open>The clips of the groups\<close>

lemma add_video_keeps:
  assumes new: "\<And>c f. \<not> probe_fails e c f \<Longrightarrow> P (fst (Video_init e c f))"
    and old: "\<forall>v \<in> set (front_videos g @ back_videos g). P v"
  shows "\<forall>v \<in> set (front_videos (fst (add_video e c g file))
                   @ back_videos (fst (add_video e c g file))). P v"
  using old new [of c "file"] by (auto simp add: add_video_result)

lemma find_group_keeps:
  assumes new: "\<And>c f. \<not> probe_fails e c f \<Longrightarrow> P (fst (Video_init e c f))"
  shows "\<forall>g \<in> set gs. \<forall>v \<in> set (front_videos g @ back_videos g). P v \<Longrightarrow>
     find_group e c t file gs = Inr (found, gs', c') \<Longrightarrow>
     \<forall>g \<in> set gs'. \<forall>v \<in> set (front_videos g @ back_videos g). P v"
proof (induction gs arbitrary: found gs' c')
  case Nil
  then show ?case by simp
next
  case (Cons g gs)
  show ?case
  proof (cases "within_window t g")
    case (Inl err)
    with Cons.prems show ?thesis by simp
  next
    case (Inr b)
    show ?thesis
    proof (cases b)
      case True
      with Inr Cons.prems(2) have gs': "gs' = fst (add_video e c (g\<lparr>end_time := t\<rparr>) file) # gs"
        by (auto split: prod.splits)
      from Cons.prems(1) have "\<forall>v \<in> set (front_videos (g\<lparr>end_time := t\<rparr>) @ back_videos (g\<lparr>end_time := t\<rparr>)). P v"
        by simp
      from add_video_keeps [of e P "g\<lparr>end_time := t\<rparr>" c "file", OF new this] gs' Cons.prems(1)
      show ?thesis by simp
    next
      case False
      with Inr Cons.prems(2) obtain rest where
        rest: "find_group e c t file gs = Inr (found, rest, c')" and gs': "gs' = g # rest"
        by (auto split: sum.splits prod.splits)
      from Cons.prems(1) have "\<forall>g \<in> set gs. \<forall>v \<in> set (front_videos g @ back_videos g). P v"
        by simp
      from Cons.IH [OF this rest] gs' Cons.prems(1) show ?thesis by simp
    qed
  qed
qed

lemma process_file_keeps:
  assumes new: "\<And>c f. \<not> probe_fails e c f \<Longrightarrow> P (fst (Video_init e c f))"
    and old: "\<forall>g \<in> set gs. \<forall>v \<in> set (front_videos g @ back_videos g). P v"
    and step: "process_file e (gs, c) file = Inr (gs', c')"
  shows "\<forall>g \<in> set gs'. \<forall>v \<in> set (front_videos g @ back_videos g). P v"
proof -
  from step obtain t where t: "datetime_from_file_name e file = Inr t"
    by (cases "datetime_from_file_name e file") (simp_all add: process_file_def)
  from step t obtain found gs1 c1 where fg: "find_group e c t file gs = Inr (found, gs1, c1)"
    by (cases "find_group e c t file gs") (auto simp add: process_file_def)
  from find_group_keeps [of e P gs c t "file" found gs1 c1, OF new old fg]
  have kept: "\<forall>g \<in> set gs1. \<forall>v \<in> set (front_videos g @ back_videos g). P v" .
  show ?thesis
  proof (cases found)
    case True
    with step t fg have "gs' = gs1" by (simp add: process_file_def)
    with kept show ?thesis by simp
  next
    case False
    with step t fg have "gs' = gs1 @ [fst (VideoGroup_init e c1 t t [file])]"
      by (auto simp add: process_file_def split: prod.splits)
    with kept new [of c1 "file"] show ?thesis by (auto simp add: new_group_result)
  qed
qed

lemma process_files_keeps:
  assumes new: "\<And>c f. \<not> probe_fails e c f \<Longrightarrow> P (fst (Video_init e c f))"
  shows "\<forall>g \<in> set gs. \<forall>v \<in> set (front_videos g @ back_videos g). P v \<Longrightarrow>
     process_files e (gs, c) files = Inr (gs', c') \<Longrightarrow>
     \<forall>g \<in> set gs'. \<forall>v \<in> set (front_videos g @ back_videos g). P v"
proof (induction files arbitrary: gs c)
  case Nil
  then show ?case by simp
next
  case (Cons f files)
  from Cons.prems(2) obtain gs1 c1 where pf: "process_file e (gs, c) f = Inr (gs1, c1)"
    and rest: "process_files e (gs1, c1) files = Inr (gs', c')"
    by (cases "process_file e (gs, c) f") auto
  from process_file_keeps [of e P gs c f gs1 c1, OF new Cons.prems(1) pf]
  have "\<forall>g \<in> set gs1. \<forall>v \<in> set (front_videos g @ back_videos g). P v" .
  from Cons.IH [OF this rest] show ?case .
qed

lemma get_videos_keeps:
  assumes new: "\<And>c f. \<not> probe_fails e c f \<Longrightarrow> P (fst (Video_init e c f))"
    and "get_videos e c files = Inr (gs, c')"
  shows "\<forall>g \<in> set gs. \<forall>v \<in> set (front_videos g @ back_videos g). P v"
  using process_files_keeps [of e P "[]" c files gs c', OF new] assms(2)
  by (simp add: get_videos_def)

text \<open>
  Claim C8. When the probe of a file exits with a non-zero code or prints no duration, the
  duration of its clip is \<open>None\<close> and \<open>add_video\<close> leaves the group as it was. Every clip of
  every group that \<open>get_videos\<close> returns has a duration. And a file whose probe fails
  whatever arguments precede its path is among the clips of no group that \<open>get_videos\<close>
  returns.
\<close>

theorem C8_unprobed_clip_in_no_group:
  "(probe_fails e c file \<longrightarrow>
      duration_seconds (fst (Video_init e c file)) = None
      \<and> add_video e c g file = (g, probe_cmd c file))
   \<and> (get_videos e c0 files = Inr (gs, c1) \<longrightarrow>
      (\<forall>h \<in> set gs. \<forall>v \<in> set (front_videos h @ back_videos h). duration_seconds v \<noteq> None))
   \<and> ((\<forall>argv. argv \<noteq> [] \<and> last argv = file \<longrightarrow>
          fst (ffprobe e argv) \<noteq> 0 \<or> to_seconds e (snd (ffprobe e argv)) = None)
       \<and> get_videos e c0 files = Inr (gs, c1) \<longrightarrow>
      (\<forall>h \<in> set gs. file \<notin> set (clip_paths h)))"
proof -
  have first: "duration_seconds (fst (Video_init e c file)) = None
      \<and> add_video e c g file = (g, probe_cmd c file)" if "probe_fails e c file"
    using that by (simp add: Video_init_duration add_video_failed)
  have second: "\<forall>h \<in> set gs. \<forall>v \<in> set (front_videos h @ back_videos h). duration_seconds v \<noteq> None"
    if "get_videos e c0 files = Inr (gs, c1)"
    by (rule get_videos_keeps [OF _ that]) (simp add: Video_init_duration)
  have third: "\<forall>h \<in> set gs. file \<notin> set (clip_paths h)"
    if never: "\<forall>argv. argv \<noteq> [] \<and> last argv = file \<longrightarrow>
          fst (ffprobe e argv) \<noteq> 0 \<or> to_seconds e (snd (ffprobe e argv)) = None"
      and scan: "get_videos e c0 files = Inr (gs, c1)"
  proof -
    have "path (fst (Video_init e c f)) \<noteq> file" if "\<not> probe_fails e c f" for c f
    proof
      assume "path (fst (Video_init e c f)) = file"
      then have "f = file" by (simp add: Video_init_path)
      moreover have "probe_cmd c file \<noteq> []" "last (probe_cmd c file) = file"
        by (simp_all add: probe_cmd_def)
      ultimately have "probe_fails e c f" using never by (simp add: probe_fails_def)
      with that show False by simp
    qed
    from get_videos_keeps [of e "\<lambda>v. path v \<noteq> file", OF this scan]
    show ?thesis by (auto simp add: clip_paths_def)
  qed
  from first second third show ?thesis by blast
qed


lemma ex_scan_three:
  "get_videos ex_env PROBE_defaults [ex_file_a, ex_file_bad, ex_file_b]
     = Inr ([\<lparr>ffmpeg = (FFMPEG_init ''ffmpeg'' True)\<lparr>debug := DEBUG\<rparr>,
              title = strftime ex_env 63808164000,
              start_time = 63808164000, end_time = 63808164000,
              front_videos = [fst (Video_init ex_env PROBE_defaults ex_file_a)],
              back_videos = [fst (Video_init ex_env (probe_cmd PROBE_defaults ex_file_bad) ex_file_b)],
              final_video = None\<rparr>], PROBE_defaults)"
proof -
  let ?g1 = "\<lparr>ffmpeg = (FFMPEG_init ''ffmpeg'' True)\<lparr>debug := DEBUG\<rparr>,
              title = strftime ex_env 63808164000,
              start_time = 63808164000, end_time = 63808164000,
              front_videos = [fst (Video_init ex_env PROBE_defaults ex_file_a)],
              back_videos = [], final_video = None\<rparr>"
  have good_a: "\<not> probe_fails ex_env PROBE_defaults ex_file_a"
    by (rule ex_probe_good) (rule ex_files_distinct)
  have good_b: "\<not> probe_fails ex_env (probe_cmd PROBE_defaults ex_file_bad) ex_file_b"
    by (rule ex_probe_good) (rule ex_files_distinct)
  from process_file_new [of ex_env ex_file_a 63808164000 "[]" PROBE_defaults]
  have 1: "process_file ex_env ([], PROBE_defaults) ex_file_a = Inr ([?g1], PROBE_defaults)"
    by (simp add: ex_datetimes new_group_result good_a ex_view_points)
  have w2: "within_window 63808165800 ?g1 = Inr True"
    by (simp add: within_window_def datetime_sub_def timedelta_hours_def)
  from process_file_attach [of ex_env ex_file_bad 63808165800 "[]" ?g1 "[]" PROBE_defaults] w2
  have 2: "process_file ex_env ([?g1], PROBE_defaults) ex_file_bad
      = Inr ([?g1\<lparr>end_time := 63808165800\<rparr>], probe_cmd PROBE_defaults ex_file_bad)"
    by (simp add: ex_datetimes add_video_failed [OF ex_probe_bad])
  have w3: "within_window 63808164000 (?g1\<lparr>end_time := 63808165800\<rparr>) = Inr True"
    by (simp add: within_window_def datetime_sub_def timedelta_hours_def)
  from process_file_attach [of ex_env ex_file_b 63808164000 "[]" "?g1\<lparr>end_time := 63808165800\<rparr>"
      "[]" "probe_cmd PROBE_defaults ex_file_bad"] w3
  have 3: "process_file ex_env ([?g1\<lparr>end_time := 63808165800\<rparr>],
        probe_cmd PROBE_defaults ex_file_bad) ex_file_b
      = Inr ([?g1\<lparr>end_time := 63808164000,
                back_videos := [fst (Video_init ex_env (probe_cmd PROBE_defaults ex_file_bad)
                  ex_file_b)]\<rparr>], PROBE_defaults)"
    by (simp add: ex_datetimes add_video_result good_b ex_view_points)
  from 1 2 3 show ?thesis by (simp add: get_videos_def)
qed

theorem C8_witness:
  "probe_fails ex_env PROBE_defaults ex_file_bad
   \<and> duration_seconds (fst (Video_init ex_env PROBE_defaults ex_file_bad)) = None
   \<and> map clip_paths (result_groups
        (get_videos ex_env PROBE_defaults [ex_file_a, ex_file_bad, ex_file_b]))
       = [[ex_file_a, ex_file_b]]
   \<and> ex_file_bad \<notin> set (concat (map clip_paths (result_groups
        (get_videos ex_env PROBE_defaults [ex_file_a, ex_file_bad, ex_file_b]))))"
proof -
  have never: "\<forall>argv. argv \<noteq> [] \<and> last argv = ex_file_bad \<longrightarrow>
      fst (ffprobe ex_env argv) \<noteq> 0 \<or> to_seconds ex_env (snd (ffprobe ex_env argv)) = None"
    by (simp add: ex_env_def ex_ffprobe_def)
  from C8_unprobed_clip_in_no_group [of ex_env PROBE_defaults ex_file_bad _ PROBE_defaults
      "[ex_file_a, ex_file_bad, ex_file_b]" _ PROBE_defaults] never ex_scan_three
    ex_probe_bad [of PROBE_defaults]
  show ?thesis
    by (simp add: result_groups_def clip_paths_def Video_init_path ex_files_distinct [symmetric])
qed

section \<open>Further properties\<close>

lemma render_batches_count:
  "render_batches e t ff w index batches = (r, ff', w', batch_files, batches') \<Longrightarrow>
     length (runs w') = length (runs w) + length batch_files \<and> length batch_files \<le> length batches"
proof (induction batches arbitrary: ff w index r ff' w' batch_files batches')
  case Nil
  then show ?case by simp
next
  case (Cons batch batches)
  obtain ff1 batch' where b: "build_batch ff batch (t @ ''_'' @ str_nat index @ ''.mp4'') = (ff1, batch')"
    by (cases "build_batch ff batch (t @ ''_'' @ str_nat index @ ''.mp4'')")
  from build_batch_output_added [of ff batch "t @ ''_'' @ str_nat index @ ''.mp4''"] b
  have added: "output_added ff1" by simp
  obtain r1 w1 where run: "FFMPEG_run e ff1 w = (r1, w1)" by (cases "FFMPEG_run e ff1 w")
  from FFMPEG_run_runs [OF added, of e w] run have w1: "runs w1 = runs w @ [cmd ff1]" by simp
  show ?case
  proof (cases r1)
    case (Some err)
    with Cons.prems b run have "w' = w1" "batch_files = [t @ ''_'' @ str_nat index @ ''.mp4'']"
      by (simp_all add: Let_def)
    with w1 show ?thesis by simp
  next
    case None
    obtain r2 ff2 w2 fs2 bs2 where rec: "render_batches e t ff1 w1 (Suc index) batches = (r2, ff2, w2, fs2, bs2)"
      by (cases "render_batches e t ff1 w1 (Suc index) batches") auto
    with None Cons.prems b run have "w' = w2" "batch_files = (t @ ''_'' @ str_nat index @ ''.mp4'') # fs2"
      by (simp_all add: Let_def)
    with Cons.IH [OF rec] w1 show ?thesis by simp
  qed
qed

text \<open>
  When \<open>make_video\<close> raises, the exception is the \<open>RuntimeError\<close> of a chunk render that
  exited with a non-zero code; the final output file was absent, the final output path
  is not recorded, and the processes run are chunk renders only, at most one per batch:
  the merge is not run.
\<close>

theorem failed_chunk_ends_group_render:
  assumes "fst (make_video e g w) = Some err"
  shows "(\<exists>rc. err = RuntimeError rc \<and> rc \<noteq> 0)
     \<and> \<not> path_exists w (title g @ ''.mp4'')
     \<and> final_video (fst (snd (make_video e g w))) = final_video g
     \<and> length (runs (snd (snd (make_video e g w))))
         \<le> length (runs w) + length (group_batches (front_videos g) (back_videos g))"
proof -
  from assms have absent: "\<not> path_exists w (title g @ ''.mp4'')"
    by (auto simp add: make_video_def Let_def DEBUG_def split: if_splits)
  obtain r ff w1 fs bs where rb: "render_batches e (title g) (ffmpeg g) w 0
        (group_batches (front_videos g) (back_videos g)) = (r, ff, w1, fs, bs)"
    by (cases "render_batches e (title g) (ffmpeg g) w 0
        (group_batches (front_videos g) (back_videos g))") auto
  from assms absent rb have r: "r = Some err"
    by (cases r) (auto simp add: make_video_def Let_def split: prod.splits)
  from absent rb r have mv: "make_video e g w = (Some err, store_videos g ff bs, w1)"
    by (simp add: make_video_def Let_def)
  from render_batches_count [OF rb] mv absent make_video_raises [OF assms]
  show ?thesis by (simp add: store_videos_def)
qed

theorem failed_chunk_ends_group_render_witness:
  "fst (make_video ex_env_fails ex_group ex_world) = Some (RuntimeError 1)
   \<and> final_video (fst (snd (make_video ex_env_fails ex_group ex_world))) = None
   \<and> length (runs (snd (snd (make_video ex_env_fails ex_group ex_world)))) \<le> 1"
proof -
  have nz: "(1::int) \<noteq> 0" by simp
  from make_video_first_chunk_fails [OF ex_world_absent, of ex_group _ "[]" ex_env_fails 1]
    ex_group_batches ex_env_fails_encoder nz
  have mv: "fst (make_video ex_env_fails ex_group ex_world) = Some (RuntimeError 1)"
    by (simp add: ex_group_title)
  have "final_video ex_group = None" "runs ex_world = []"
    by (simp_all add: ex_group_def ex_group_of_def ex_world_def)
  with failed_chunk_ends_group_render [OF mv] mv show ?thesis
    by (simp add: ex_group_batches)
qed

text \<open>
  A failed probe leaves its arguments in the \<open>cmd\<close> of the shared \<open>PROBE\<close>: \<open>reset\<close> is
  called only after a duration was read. The next probe then runs the probing process
  with the failed file's arguments before its own.
\<close>

theorem failed_probe_leaves_arguments:
  assumes "probe_fails e c file"
  shows "snd (get_media_duration e c file) = probe_cmd c file
     \<and> snd (Video_init e c file) = probe_cmd c file
     \<and> probe_cmd (snd (get_media_duration e c file)) file2
         = c @ [''-v'', ''error'', ''-show_entries'', ''format=duration'', ''-of'',
                ''default=noprint_wrappers=1:nokey=1'', file,
                ''-v'', ''error'', ''-show_entries'', ''format=duration'', ''-of'',
                ''default=noprint_wrappers=1:nokey=1'', file2]"
proof -
  from get_media_duration_fails [OF assms] obtain err where
    "get_media_duration e c file = (Inl err, probe_cmd c file)" by blast
  then show ?thesis
    using assms by (simp add: Video_init_cmd probe_cmd_def)
qed

theorem failed_probe_leaves_arguments_witness:
  "probe_fails ex_env PROBE_defaults ex_file_bad
   \<and> snd (get_media_duration ex_env PROBE_defaults ex_file_bad)
       = [''ffprobe'', ''-v'', ''error'', ''-show_entries'', ''format=duration'', ''-of'',
          ''default=noprint_wrappers=1:nokey=1'', ''input/20230101_103000B.mp4'']"
  using failed_probe_leaves_arguments [OF ex_probe_bad [of PROBE_defaults]]
    ex_probe_bad [of PROBE_defaults]
  by (simp add: probe_cmd_def PROBE_defaults_def ex_file_bad_def)

end
